theory Spec2Isabelle
  imports Main
begin

section \<open>Python string operations used by the migration scripts\<close>

text \<open>
  Paths and keys are Python \<^verbatim>\<open>str\<close> values, modelled as \<^typ>\<open>string\<close>.
  The backslash has no literal form inside a HOL string, so it is named.
\<close>

definition backslash :: char where
  "backslash = CHR 0x5C"

definition slash :: char where
  "slash = CHR ''/''"

definition dash :: char where
  "dash = CHR ''-''"

text \<open>
  \<^verbatim>\<open>s.startswith(old)\<close>, the test that the scan of \<^verbatim>\<open>str.replace\<close> makes at
  every position.
\<close>

definition startswith :: "string \<Rightarrow> string \<Rightarrow> bool" where
  "startswith s old = (take (length old) s = old)"

text \<open>
  \<^verbatim>\<open>s.replace(old, new)\<close>: every non-overlapping occurrence of \<^verbatim>\<open>old\<close>, found by
  a scan from the left, is replaced by \<^verbatim>\<open>new\<close>. An empty \<^verbatim>\<open>old\<close> matches before
  every character and at the end, as in Python.
\<close>

function replace_str :: "string \<Rightarrow> string \<Rightarrow> string \<Rightarrow> string" where
  "replace_str old new [] = (if old = [] then new else [])"
| "replace_str old new (c # cs) =
     (if old = [] then new @ c # replace_str old new cs
      else if startswith (c # cs) old
        then new @ replace_str old new (drop (length old) (c # cs))
      else c # replace_str old new cs)"
  by pat_completeness auto
termination
  by (relation "measure (\<lambda>(old, new, s). length s)") auto

section \<open>Path translation (user-watched-import.py, translate\_path)\<close>

definition source_prefix :: string where
  "source_prefix = ''F:'' @ [backslash] @ ''Media'' @ [backslash]"

definition destination_prefix :: string where
  "destination_prefix = ''/media/''"

text \<open>
  \<^verbatim>\<open>path = windows_path.replace("F:\\Media\\", "/media/")\<close>
  \<^verbatim>\<open>path = path.replace("\\", "/")\<close>
\<close>

definition translate_path :: "string \<Rightarrow> string" where
  "translate_path windows_path =
     (let path = replace_str source_prefix destination_prefix windows_path;
          path = replace_str [backslash] [slash] path
      in path)"

text \<open>
  The exceptions of the import script: \<^verbatim>\<open>sqlite3.Error\<close>, the only class that \<^verbatim>\<open>main\<close>
  catches; \<^verbatim>\<open>AttributeError\<close>, raised by \<^verbatim>\<open>None.replace\<close>; \<^verbatim>\<open>OverflowError\<close>, raised when
  an integer that does not fit 64 bits is bound to a statement; \<^verbatim>\<open>UnicodeEncodeError\<close>,
  raised by \<^verbatim>\<open>print\<close> when the standard output cannot encode the text. The last three
  are not subclasses of \<^verbatim>\<open>sqlite3.Error\<close>.

  The path is read with \<^verbatim>\<open>item.get("Path")\<close>, which is \<^verbatim>\<open>None\<close> when the field is
  absent or null; \<^verbatim>\<open>None.replace\<close> raises \<^verbatim>\<open>AttributeError\<close>.
\<close>

datatype exn = SqliteError | AttributeError | OverflowError | UnicodeEncodeError

definition translate_path_py :: "string option \<Rightarrow> exn + string" where
  "translate_path_py old_path =
     (case old_path of None \<Rightarrow> Inl AttributeError | Some p \<Rightarrow> Inr (translate_path p))"

text \<open>What the specification describes for an unmatched path: separators only.\<close>

definition normalize_separators :: "string \<Rightarrow> string" where
  "normalize_separators p = map (\<lambda>c. if c = backslash then slash else c) p"

text \<open>\<^verbatim>\<open>old in s\<close>: the pattern occurs somewhere in the string.\<close>

fun contains :: "string \<Rightarrow> string \<Rightarrow> bool" where
  "contains [] old = (old = [])"
| "contains (c # cs) old = (startswith (c # cs) old \<or> contains cs old)"


section \<open>Content fingerprints\<close>

text \<open>
  SQL \<^verbatim>\<open>REPLACE(X, Y, Z)\<close>: every occurrence of \<^verbatim>\<open>Y\<close> in \<^verbatim>\<open>X\<close> becomes \<^verbatim>\<open>Z\<close>; an
  empty \<^verbatim>\<open>Y\<close> leaves \<^verbatim>\<open>X\<close> as it is.
\<close>

definition sql_replace :: "string \<Rightarrow> string \<Rightarrow> string \<Rightarrow> string" where
  "sql_replace x y z = (if y = [] then x else replace_str y z x)"

text \<open>The export query's \<^verbatim>\<open>REPLACE(d.Key, '-', '')\<close>.\<close>

definition canonicalize :: "string \<Rightarrow> string" where
  "canonicalize key = sql_replace key [dash] []"

text \<open>The Python slice \<^verbatim>\<open>s[i:j]\<close> for \<^verbatim>\<open>0 <= i <= j\<close>; it never raises.\<close>

definition slice :: "nat \<Rightarrow> nat \<Rightarrow> string \<Rightarrow> string" where
  "slice i j s = take (j - i) (drop i s)"

text \<open>
  \<^verbatim>\<open>f"{k[:8]}-{k[8:12]}-{k[12:16]}-{k[16:20]}-{k[20:]}"\<close>
\<close>

definition format_key :: "string \<Rightarrow> string" where
  "format_key new_pres_key =
     take 8 new_pres_key @ [dash] @ slice 8 12 new_pres_key @ [dash]
       @ slice 12 16 new_pres_key @ [dash] @ slice 16 20 new_pres_key @ [dash]
       @ drop 20 new_pres_key"

definition is_hex_digit :: "char \<Rightarrow> bool" where
  "is_hex_digit c = (c \<in> set ''0123456789abcdefABCDEF'')"

definition hex_string :: "string \<Rightarrow> bool" where
  "hex_string s = list_all is_hex_digit s"

text \<open>An undashed fingerprint of 32 hexadecimal characters.\<close>

definition undashed32 :: "string \<Rightarrow> bool" where
  "undashed32 f = (length f = 32 \<and> hex_string f)"

text \<open>A dashed fingerprint: hexadecimal groups of 8, 4, 4, 4 and 12 with a dash between.\<close>

definition dashed_8_4_4_4_12 :: "string \<Rightarrow> bool" where
  "dashed_8_4_4_4_12 d =
     (length d = 36
      \<and> hex_string (take 8 d) \<and> d ! 8 = dash
      \<and> hex_string (slice 9 13 d) \<and> d ! 13 = dash
      \<and> hex_string (slice 14 18 d) \<and> d ! 18 = dash
      \<and> hex_string (slice 19 23 d) \<and> d ! 23 = dash
      \<and> hex_string (drop 24 d))"

section \<open>The Extractor (user-watched-export.py)\<close>

text \<open>
  The three relations the export query reads, with the columns it uses. Columns that the
  media server declares \<^verbatim>\<open>NOT NULL\<close> (the state row's key and owner, the account's id and
  name) are plain values; the catalog's columns are nullable.
\<close>

record typed_base_item =
  i_Name :: "string option"
  i_Path :: "string option"
  i_PresentationUniqueKey :: "string option"

record source_user_data =
  d_Key :: string
  d_UserId :: int
  d_PlaybackPositionTicks :: int
  d_LastPlayedDate :: "string option"

record source_user =
  u_InternalId :: int
  u_Username :: string

text \<open>
  One entry of the JSON artifact. The import reads each field with \<^verbatim>\<open>item.get\<close>, so a
  field that is absent or null is \<^term>\<open>None\<close>.
\<close>

record watch_record =
  ItemName :: "string option"
  Path :: "string option"
  PlaybackPositionTicks :: "int option"
  LastPlayedDate :: "string option"
  Username :: "string option"
  PresentationUniqueKey :: "string option"

text \<open>
  The query: \<^verbatim>\<open>FROM TypedBaseItems i JOIN UserDatas d ON i.PresentationUniqueKey =
  REPLACE(d.Key, '-', '') JOIN jf.Users u ON d.UserId = u.InternalId WHERE i.Path IS NOT
  NULL\<close>. A null catalog key equals nothing. There is no condition on the username.
\<close>

definition export_query ::
  "typed_base_item list \<Rightarrow> source_user_data list \<Rightarrow> source_user list
     \<Rightarrow> (string option \<times> string option \<times> int \<times> string option \<times> string \<times> string) list" where
  "export_query items datas users =
     [(i_Name i, i_Path i, d_PlaybackPositionTicks d, d_LastPlayedDate d, u_Username u,
       canonicalize (d_Key d)).
        i \<leftarrow> items, d \<leftarrow> datas,
        i_PresentationUniqueKey i = Some (canonicalize (d_Key d)),
        u \<leftarrow> users, d_UserId d = u_InternalId u,
        i_Path i \<noteq> None]"

text \<open>The loop of \<^verbatim>\<open>main\<close> that turns each fetched row into a dictionary.\<close>

definition export_main ::
  "typed_base_item list \<Rightarrow> source_user_data list \<Rightarrow> source_user list \<Rightarrow> watch_record list" where
  "export_main items datas users =
     map (\<lambda>(item_name, old_path, position, last_played, username, pres_key).
            \<lparr>ItemName = item_name, Path = old_path, PlaybackPositionTicks = Some position,
             LastPlayedDate = last_played, Username = Some username,
             PresentationUniqueKey = Some pres_key\<rparr>)
         (export_query items datas users)"

section \<open>The Resolver and the Loader (user-watched-import.py)\<close>

text \<open>
  \<^verbatim>\<open>get_user_map\<close>: the rows of \<^verbatim>\<open>SELECT Username, Id FROM Users\<close> go into a dictionary,
  a later row overriding an earlier one with the same name.
\<close>

definition get_user_map :: "(string \<times> string) list \<Rightarrow> (string \<rightharpoonup> string)" where
  "get_user_map rows = fold (\<lambda>row user_map. user_map(fst row \<mapsto> snd row)) rows Map.empty"

text \<open>
  \<^verbatim>\<open>get_new_presentation_key\<close>: \<^verbatim>\<open>fetchone()\<close> takes the first row of
  \<^verbatim>\<open>SELECT PresentationUniqueKey FROM TypedBaseItems WHERE Path = ?\<close>, or \<^verbatim>\<open>None\<close> when
  there is no row; the column of the row found may itself be null.
\<close>

definition get_new_presentation_key :: "typed_base_item list \<Rightarrow> string \<Rightarrow> string option" where
  "get_new_presentation_key new_lib file_path =
     (case find (\<lambda>i. i_Path i = Some file_path) new_lib of
        None \<Rightarrow> None
      | Some result \<Rightarrow> i_PresentationUniqueKey result)"

text \<open>
  Python truth of an optional string: \<^verbatim>\<open>not x\<close> holds for \<^verbatim>\<open>None\<close> and for the empty
  string.
\<close>

definition py_not :: "string option \<Rightarrow> bool" where
  "py_not x = (x = None \<or> x = Some [])"

text \<open>
  A row of the destination table \<^verbatim>\<open>UserDatas\<close>, with the nine columns the insert names.
  The key and the user id (column \<^verbatim>\<open>Id\<close> of \<^verbatim>\<open>Users\<close>) are text; the position and the date
  are what the artifact holds, null included.
\<close>

record user_data_row =
  Key :: string
  UserId :: string
  Played :: int
  PlayCount :: int
  IsFavorite :: int
  ud_PlaybackPositionTicks :: "int option"
  ud_LastPlayedDate :: "string option"
  AudioStreamIndex :: int
  SubtitleStreamIndex :: int

definition row_key :: "user_data_row \<Rightarrow> string \<times> string" where
  "row_key r = (Key r, UserId r)"

text \<open>
  Modelled from the spec: the declaration of the destination table \<^verbatim>\<open>UserDatas\<close> is not
  part of the repository. The specification says a row is uniquely identified by
  (formattedFingerprint, destinationUserId) and that a second load for the same pair
  replaces the row. \<^verbatim>\<open>INSERT OR REPLACE\<close> on such a table deletes the rows that hold the
  new row's pair and then inserts the new row.
\<close>

definition insert_or_replace :: "user_data_row list \<Rightarrow> user_data_row \<Rightarrow> user_data_row list" where
  "insert_or_replace tbl row = filter (\<lambda>r. row_key r \<noteq> row_key row) tbl @ [row]"

text \<open>
  The connection to the destination library: the committed table and, once a statement
  has opened a transaction, the table as the transaction sees it.
\<close>

record connection =
  committed :: "user_data_row list"
  pending :: "user_data_row list option"

definition connect :: "user_data_row list \<Rightarrow> connection" where
  "connect tbl = \<lparr>committed = tbl, pending = None\<rparr>"

definition visible :: "connection \<Rightarrow> user_data_row list" where
  "visible conn = (case pending conn of None \<Rightarrow> committed conn | Some tbl \<Rightarrow> tbl)"

text \<open>What the script prints.\<close>

datatype message =
    Connected
  | Loaded nat
  | FoundUsers "string list"
  | SkippingUserNotFound "string option" "string option"
  | SkippingMediaNotFound "string option" string
  | MigrationComplete nat
  | MigrationError
  | ConnectionsClosed

text \<open>
  What a run depends on besides its inputs, as parameters of the model:
  \<^item> \<^verbatim>\<open>encodes\<close>: the encoding of the standard output can encode the text of the
    message (UTF-8 encodes every text; cp1252 and ASCII do not);
  \<^item> \<^verbatim>\<open>refuses_statement\<close>: the store refuses the insert before any value is bound,
    when the statement is compiled or the transaction is opened (the table is missing,
    the file cannot be written);
  \<^item> \<^verbatim>\<open>refuses_row\<close>: the store refuses the row when the statement runs (a constraint of
    the table); it may depend on the table and on the row;
  \<^item> \<^verbatim>\<open>refuses_commit\<close>: the store refuses the commit (the file is locked by a reader,
    the disk is full).

  The reads of the two stores, the rollback and the closing are taken to succeed.
\<close>

record environment =
  encodes :: "message \<Rightarrow> bool"
  refuses_statement :: "user_data_row list \<Rightarrow> bool"
  refuses_row :: "user_data_row list \<Rightarrow> user_data_row \<Rightarrow> bool"
  refuses_commit :: "user_data_row list \<Rightarrow> bool"

text \<open>
  An integer is bound to a statement as a signed 64-bit value; a Python integer outside
  that range makes the binding raise \<^verbatim>\<open>OverflowError\<close>. A null binds, and so does a text:
  the strings of this model are well-formed texts.
\<close>

definition sqlite_integer :: "int \<Rightarrow> bool" where
  "sqlite_integer n = (- (2 ^ 63) \<le> n \<and> n < 2 ^ 63)"

definition binds :: "user_data_row \<Rightarrow> bool" where
  "binds row =
     (sqlite_integer (Played row) \<and> sqlite_integer (PlayCount row)
      \<and> sqlite_integer (IsFavorite row)
      \<and> (case ud_PlaybackPositionTicks row of None \<Rightarrow> True | Some n \<Rightarrow> sqlite_integer n)
      \<and> sqlite_integer (AudioStreamIndex row) \<and> sqlite_integer (SubtitleStreamIndex row))"

text \<open>
  \<^verbatim>\<open>cursor.execute(insert_query, ...)\<close>: the statement is compiled and the transaction
  opened, then the nine values are bound, then the statement runs. A refusal of the store
  raises \<^verbatim>\<open>sqlite3.Error\<close>, a value that does not bind raises \<^verbatim>\<open>OverflowError\<close>; in each
  case the statement has no effect.
\<close>

definition execute_insert :: "environment \<Rightarrow> connection \<Rightarrow> user_data_row \<Rightarrow> exn + connection" where
  "execute_insert env conn row =
     (if refuses_statement env (visible conn) then Inl SqliteError
      else if \<not> binds row then Inl OverflowError
      else if refuses_row env (visible conn) row then Inl SqliteError
      else Inr (conn\<lparr>pending := Some (insert_or_replace (visible conn) row)\<rparr>))"

text \<open>
  \<^verbatim>\<open>commit()\<close>: the table of the transaction becomes the committed table, unless the
  store refuses; it then raises \<^verbatim>\<open>sqlite3.Error\<close> and the transaction stays open.
\<close>

definition commit :: "environment \<Rightarrow> connection \<Rightarrow> exn + connection" where
  "commit env conn =
     (if refuses_commit env (visible conn) then Inl SqliteError
      else Inr (conn\<lparr>committed := visible conn, pending := None\<rparr>))"

definition rollback :: "connection \<Rightarrow> connection" where
  "rollback conn = conn\<lparr>pending := None\<rparr>"

text \<open>Closing a connection drops a transaction that was not committed.\<close>

definition close :: "connection \<Rightarrow> connection" where
  "close conn = conn\<lparr>pending := None\<rparr>"

text \<open>The variables of \<^verbatim>\<open>main\<close> that change in the loop.\<close>

record loader_state =
  new_lib_conn :: connection
  migrated_count :: nat
  out :: "message list"

text \<open>
  \<^verbatim>\<open>print\<close> of a message that carries a name or a path: when the standard output cannot
  encode the text, nothing is written and \<^verbatim>\<open>UnicodeEncodeError\<close> is raised.
\<close>

definition print_message ::
  "environment \<Rightarrow> loader_state \<Rightarrow> message \<Rightarrow> (exn \<times> loader_state) + loader_state" where
  "print_message env st m =
     (if encodes env m then Inr (st\<lparr>out := out st @ [m]\<rparr>)
      else Inl (UnicodeEncodeError, st))"

text \<open>Steps 1 and 2 of the loop body and the making of the row: they read, and write nothing.\<close>

datatype decision =
    SkipUser "string option" "string option"
  | SkipMedia "string option" string
  | Insert user_data_row

definition decide_item ::
  "(string \<rightharpoonup> string) \<Rightarrow> typed_base_item list \<Rightarrow> watch_record \<Rightarrow> exn + decision" where
  "decide_item user_map new_lib item =
     (let item_name = ItemName item;
          old_path = Path item;
          position = PlaybackPositionTicks item;
          last_played = LastPlayedDate item;
          username = Username item;
          new_user_id = (case username of None \<Rightarrow> None | Some u \<Rightarrow> user_map u)
      in if py_not new_user_id then Inr (SkipUser item_name username)
         else case translate_path_py old_path of
                Inl e \<Rightarrow> Inl e
              | Inr new_path \<Rightarrow>
                  (let new_pres_key = get_new_presentation_key new_lib new_path
                   in if py_not new_pres_key then Inr (SkipMedia item_name new_path)
                      else Inr (Insert
                        \<lparr>Key = format_key (the new_pres_key), UserId = the new_user_id,
                         Played = 1, PlayCount = 1, IsFavorite = 0,
                         ud_PlaybackPositionTicks = position, ud_LastPlayedDate = last_played,
                         AudioStreamIndex = - 1, SubtitleStreamIndex = - 1\<rparr>)))"

text \<open>
  One turn of the loop. An exception leaves the loop with the state reached so far: what
  was printed stays printed, and the transaction is still open.
\<close>

definition process_item ::
  "environment \<Rightarrow> (string \<rightharpoonup> string) \<Rightarrow> typed_base_item list \<Rightarrow> loader_state
     \<Rightarrow> watch_record \<Rightarrow> (exn \<times> loader_state) + loader_state" where
  "process_item env user_map new_lib st item =
     (case decide_item user_map new_lib item of
        Inl e \<Rightarrow> Inl (e, st)
      | Inr (SkipUser item_name username) \<Rightarrow>
          print_message env st (SkippingUserNotFound item_name username)
      | Inr (SkipMedia item_name new_path) \<Rightarrow>
          print_message env st (SkippingMediaNotFound item_name new_path)
      | Inr (Insert row) \<Rightarrow>
          (case execute_insert env (new_lib_conn st) row of
             Inl e \<Rightarrow> Inl (e, st)
           | Inr conn \<Rightarrow>
               Inr (st\<lparr>new_lib_conn := conn, migrated_count := migrated_count st + 1\<rparr>)))"

text \<open>The loop over the artifact; an exception ends it.\<close>

fun migrate ::
  "environment \<Rightarrow> (string \<rightharpoonup> string) \<Rightarrow> typed_base_item list \<Rightarrow> loader_state
     \<Rightarrow> watch_record list \<Rightarrow> (exn \<times> loader_state) + loader_state" where
  "migrate env user_map new_lib st [] = Inr st"
| "migrate env user_map new_lib st (item # watched_data) =
     (case process_item env user_map new_lib st item of
        Inl e \<Rightarrow> Inl e
      | Inr st' \<Rightarrow> migrate env user_map new_lib st' watched_data)"

text \<open>
  The line printed once the user map is built: it lists the keys of the map, in the
  order of first insertion.
\<close>

definition found_users :: "(string \<times> string) list \<Rightarrow> message" where
  "found_users new_users = FoundUsers (rev (remdups (rev (map fst new_users))))"

text \<open>
  The state when the loop starts: both stores are open, the artifact is loaded, the user
  map is built and its keys are printed.
\<close>

definition initial_state ::
  "(string \<times> string) list \<Rightarrow> watch_record list \<Rightarrow> user_data_row list \<Rightarrow> loader_state" where
  "initial_state new_users watched_data tbl =
     \<lparr>new_lib_conn = connect tbl, migrated_count = 0,
      out = [Connected, Loaded (length watched_data), found_users new_users]\<rparr>"

text \<open>
  The outcome of a run: the destination table once the connections are closed, what was
  printed, and the exception that leaves \<^verbatim>\<open>main\<close> uncaught, if any.
\<close>

record run_result =
  user_datas :: "user_data_row list"
  printed :: "message list"
  uncaught :: "exn option"

text \<open>
  The body of the \<^verbatim>\<open>try\<close> statement of \<^verbatim>\<open>main\<close> (lines 74 to 111): the loop, the commit, and
  the line that reports the number of migrated items.
\<close>

definition try_body ::
  "environment \<Rightarrow> (string \<rightharpoonup> string) \<Rightarrow> typed_base_item list \<Rightarrow> loader_state
     \<Rightarrow> watch_record list \<Rightarrow> (exn \<times> loader_state) + loader_state" where
  "try_body env user_map new_lib st0 watched_data =
     (case migrate env user_map new_lib st0 watched_data of
        Inl raised \<Rightarrow> Inl raised
      | Inr st \<Rightarrow>
          (case commit env (new_lib_conn st) of
             Inl e \<Rightarrow> Inl (e, st)
           | Inr conn \<Rightarrow>
               Inr (st\<lparr>new_lib_conn := conn,
                       out := out st @ [MigrationComplete (migrated_count st)]\<rparr>)))"

text \<open>
  \<^verbatim>\<open>main\<close> from the point where the stores are open and the artifact is loaded. The line
  that lists the users is printed before the \<^verbatim>\<open>try\<close>: when the standard output cannot
  encode a name, the exception leaves \<^verbatim>\<open>main\<close> there, with nothing executed. Then
  \<^verbatim>\<open>try: loop; commit; print  except sqlite3.Error: print; rollback  finally: close\<close>.
  Any other exception passes the \<^verbatim>\<open>except\<close> clause and only meets the \<^verbatim>\<open>finally\<close>.
  The other lines are fixed ASCII text with a number, or the text of the store's error
  (its words and the names of the table and its columns): every encoding of the standard
  output takes them.
\<close>

definition loader_main ::
  "environment \<Rightarrow> (string \<times> string) list \<Rightarrow> typed_base_item list \<Rightarrow> watch_record list
     \<Rightarrow> user_data_row list \<Rightarrow> run_result" where
  "loader_main env new_users new_lib watched_data tbl =
     (let user_map = get_user_map new_users;
          st0 = initial_state new_users watched_data tbl
      in if \<not> encodes env (found_users new_users)
         then \<lparr>user_datas = tbl,
               printed = [Connected, Loaded (length watched_data)],
               uncaught = Some UnicodeEncodeError\<rparr>
         else case try_body env user_map new_lib st0 watched_data of
           Inr st \<Rightarrow>
             \<lparr>user_datas = committed (close (new_lib_conn st)),
              printed = out st @ [ConnectionsClosed],
              uncaught = None\<rparr>
         | Inl (SqliteError, st) \<Rightarrow>
             \<lparr>user_datas = committed (close (rollback (new_lib_conn st))),
              printed = out st @ [MigrationError, ConnectionsClosed],
              uncaught = None\<rparr>
         | Inl (e, st) \<Rightarrow>
             \<lparr>user_datas = committed (close (new_lib_conn st)),
              printed = out st @ [ConnectionsClosed],
              uncaught = Some e\<rparr>)"

text \<open>
  The run-end summary: what is printed once the loop is over. These three messages are
  printed nowhere else.
\<close>

fun is_summary :: "message \<Rightarrow> bool" where
  "is_summary (MigrationComplete n) = True"
| "is_summary MigrationError = True"
| "is_summary ConnectionsClosed = True"
| "is_summary _ = False"

definition run_end_summary :: "run_result \<Rightarrow> message list" where
  "run_end_summary r = filter is_summary (printed r)"

text \<open>The Loader as a function of the destination table: the table a run leaves.\<close>

definition load ::
  "environment \<Rightarrow> (string \<times> string) list \<Rightarrow> typed_base_item list \<Rightarrow> watch_record list
     \<Rightarrow> user_data_row list \<Rightarrow> user_data_row list" where
  "load env new_users new_lib watched_data tbl =
     user_datas (loader_main env new_users new_lib watched_data tbl)"

text \<open>
  The insert that fails in a loop, if one does: the loop is left by an exception at a
  record for which the loop body reached \<^verbatim>\<open>cursor.execute\<close> (line 106), and the result is
  that exception.
\<close>

fun failed_insert ::
  "environment \<Rightarrow> (string \<rightharpoonup> string) \<Rightarrow> typed_base_item list \<Rightarrow> loader_state
     \<Rightarrow> watch_record list \<Rightarrow> exn option" where
  "failed_insert env user_map new_lib st [] = None"
| "failed_insert env user_map new_lib st (item # watched_data) =
     (case process_item env user_map new_lib st item of
        Inr st' \<Rightarrow> failed_insert env user_map new_lib st' watched_data
      | Inl (e, st') \<Rightarrow>
          (case decide_item user_map new_lib item of
             Inr (Insert row) \<Rightarrow> Some e
           | _ \<Rightarrow> None))"

text \<open>An upsert fails during the run, with this exception.\<close>

definition upsert_failure ::
  "environment \<Rightarrow> (string \<times> string) list \<Rightarrow> typed_base_item list \<Rightarrow> watch_record list
     \<Rightarrow> user_data_row list \<Rightarrow> exn option" where
  "upsert_failure env new_users new_lib watched_data tbl =
     (if encodes env (found_users new_users)
      then failed_insert env (get_user_map new_users) new_lib
             (initial_state new_users watched_data tbl) watched_data
      else None)"

text \<open>
  The run commits: the body of the \<^verbatim>\<open>try\<close> statement ends with no exception (the loop
  ends, and the commit of line 110 is taken).
\<close>

definition commits ::
  "environment \<Rightarrow> (string \<times> string) list \<Rightarrow> typed_base_item list \<Rightarrow> watch_record list
     \<Rightarrow> user_data_row list \<Rightarrow> bool" where
  "commits env new_users new_lib watched_data tbl =
     (encodes env (found_users new_users)
      \<and> (case try_body env (get_user_map new_users) new_lib
                 (initial_state new_users watched_data tbl) watched_data of
            Inr st \<Rightarrow> True
          | Inl raised \<Rightarrow> False))"

text \<open>The record is left out by one of the two checks of the loop body.\<close>

definition skipped :: "(string \<rightharpoonup> string) \<Rightarrow> typed_base_item list \<Rightarrow> watch_record \<Rightarrow> bool" where
  "skipped user_map new_lib item =
     (case decide_item user_map new_lib item of
        Inr (SkipUser item_name username) \<Rightarrow> True
      | Inr (SkipMedia item_name new_path) \<Rightarrow> True
      | _ \<Rightarrow> False)"

text \<open>
  An environment in which nothing is refused: the standard output encodes every message
  (UTF-8) and the store takes every insert. And one whose table does not take a null
  playback position.
\<close>

definition never_rejects :: environment where
  "never_rejects =
     \<lparr>encodes = (\<lambda>m. True), refuses_statement = (\<lambda>tbl. False),
      refuses_row = (\<lambda>tbl row. False), refuses_commit = (\<lambda>tbl. False)\<rparr>"

definition rejects_null_position :: environment where
  "rejects_null_position =
     never_rejects\<lparr>refuses_row := (\<lambda>tbl row. ud_PlaybackPositionTicks row = None)\<rparr>"

section \<open>The scenario of the specification, as data\<close>

definition scenario_users :: "(string \<times> string) list" where
  "scenario_users = [(''alice'', ''u-alice'')]"

definition scenario_lib :: "typed_base_item list" where
  "scenario_lib =
     [\<lparr>i_Name = Some ''Ep1'', i_Path = Some ''/media/Show/ep1.mkv'',
       i_PresentationUniqueKey = Some ''9f8e7d6c5b4a3210ffeeddccbbaa0011''\<rparr>]"

definition scenario_path :: string where
  "scenario_path =
     ''F:'' @ [backslash] @ ''Media'' @ [backslash] @ ''Show'' @ [backslash] @ ''ep1.mkv''"

definition alice_record :: watch_record where
  "alice_record =
     \<lparr>ItemName = Some ''Ep1'', Path = Some scenario_path, PlaybackPositionTicks = Some 500,
      LastPlayedDate = Some ''2024-01-01'', Username = Some ''alice'',
      PresentationUniqueKey = Some ''abc123''\<rparr>"

definition alice_null_position :: watch_record where
  "alice_null_position = alice_record\<lparr>PlaybackPositionTicks := None\<rparr>"

text \<open>A position of 2^63 ticks: one more than the largest signed 64-bit integer.\<close>

definition alice_huge_position :: watch_record where
  "alice_huge_position = alice_record\<lparr>PlaybackPositionTicks := Some 9223372036854775808\<rparr>"

definition bob_record :: watch_record where
  "bob_record = alice_record\<lparr>Username := Some ''bob''\<rparr>"

definition unknown_media_record :: watch_record where
  "unknown_media_record = alice_record\<lparr>Path := Some ''/nowhere/ep9.mkv''\<rparr>"

definition alice_row :: user_data_row where
  "alice_row =
     \<lparr>Key = ''9f8e7d6c-5b4a-3210-ffee-ddccbbaa0011'', UserId = ''u-alice'',
      Played = 1, PlayCount = 1, IsFavorite = 0,
      ud_PlaybackPositionTicks = Some 500, ud_LastPlayedDate = Some ''2024-01-01'',
      AudioStreamIndex = - 1, SubtitleStreamIndex = - 1\<rparr>"

text \<open>A row that the destination holds before the run, for the same item and user.\<close>

definition earlier_row :: user_data_row where
  "earlier_row =
     \<lparr>Key = ''9f8e7d6c-5b4a-3210-ffee-ddccbbaa0011'', UserId = ''u-alice'',
      Played = 0, PlayCount = 0, IsFavorite = 1,
      ud_PlaybackPositionTicks = Some 7, ud_LastPlayedDate = None,
      AudioStreamIndex = 2, SubtitleStreamIndex = 3\<rparr>"

section \<open>Notions used in the proofs\<close>

text \<open>The rows a run hands to the store when no insert is refused, in the order of the artifact.\<close>

definition planned_rows ::
  "(string \<rightharpoonup> string) \<Rightarrow> typed_base_item list \<Rightarrow> watch_record list \<Rightarrow> user_data_row list" where
  "planned_rows user_map new_lib watched_data =
     concat (map (\<lambda>item. case decide_item user_map new_lib item of
                            Inr (Insert row) \<Rightarrow> [row] | _ \<Rightarrow> []) watched_data)"

text \<open>Of the rows written for one key, the last one stays.\<close>

fun last_writes :: "user_data_row list \<Rightarrow> user_data_row list" where
  "last_writes [] = []"
| "last_writes (r # rs) =
     (if row_key r \<in> row_key ` set rs then last_writes rs else r # last_writes rs)"

section \<open>Properties of replace\<close>

lemma replace_str_single:
  "replace_str [a] [b] s = map (\<lambda>c. if c = a then b else c) s"
  by (induction s) (simp_all add: startswith_def)

lemma replace_str_delete:
  "replace_str [a] [] s = filter (\<lambda>c. c \<noteq> a) s"
  by (induction s) (simp_all add: startswith_def)

lemma startswith_set: "startswith s old \<Longrightarrow> set old \<subseteq> set s"
  unfolding startswith_def by (metis set_take_subset)

lemma replace_str_absent_char:
  "a \<in> set old \<Longrightarrow> a \<notin> set s \<Longrightarrow> replace_str old new s = s"
proof (induction s)
  case Nil
  then show ?case by auto
next
  case (Cons c cs)
  from Cons.prems have ne: "old \<noteq> []" by auto
  from Cons.prems have "\<not> startswith (c # cs) old"
    using startswith_set by blast
  moreover from Cons have "replace_str old new cs = cs" by simp
  ultimately show ?case using ne by simp
qed

lemma replace_str_not_contained:
  "\<not> contains s old \<Longrightarrow> replace_str old new s = s"
proof (induction s)
  case Nil
  then show ?case by simp
next
  case (Cons c cs)
  from Cons.prems have ns: "\<not> startswith (c # cs) old" and nc: "\<not> contains cs old"
    by simp_all
  from ns have ne: "old \<noteq> []" by (auto simp: startswith_def)
  from nc Cons.IH have "replace_str old new cs = cs" by simp
  with ns ne show ?case by simp
qed

lemma translate_path_eq:
  "translate_path p =
     normalize_separators (replace_str source_prefix destination_prefix p)"
  by (simp add: translate_path_def normalize_separators_def replace_str_single)

lemma backslash_notin_translate_path: "backslash \<notin> set (translate_path p)"
  by (auto simp: translate_path_eq normalize_separators_def slash_def backslash_def)

lemma normalize_separators_id:
  "backslash \<notin> set q \<Longrightarrow> normalize_separators q = q"
  unfolding normalize_separators_def by (induction q) auto

lemma backslash_in_source_prefix: "backslash \<in> set source_prefix"
  by (simp add: source_prefix_def)

section \<open>Path translation: the claims\<close>

text \<open>
  C3, as the specification states it: a path that does not begin with the source prefix
  comes out with its separators changed and nothing else. The code replaces the pattern
  wherever it occurs, so a path that holds the pattern further in is rewritten there too.
\<close>

theorem translate_path_unanchored_counterexample:
  "\<not> startswith (''D:'' @ [backslash] @ ''F:'' @ [backslash] @ ''Media'' @ [backslash] @ ''x'')
        source_prefix
   \<and> translate_path (''D:'' @ [backslash] @ ''F:'' @ [backslash] @ ''Media'' @ [backslash] @ ''x'')
       \<noteq> normalize_separators
           (''D:'' @ [backslash] @ ''F:'' @ [backslash] @ ''Media'' @ [backslash] @ ''x'')
   \<and> translate_path (''D:'' @ [backslash] @ ''F:'' @ [backslash] @ ''Media'' @ [backslash] @ ''x'')
       = ''D://media/x''"
  by (simp add: translate_path_def normalize_separators_def source_prefix_def
      destination_prefix_def startswith_def backslash_def slash_def)

text \<open>
  C3, amended: translation of a string always returns (the function is total and the
  Python call on a \<^verbatim>\<open>str\<close> raises nothing); the result is the separator fix-up of the
  string in which every occurrence of the source pattern has been replaced; and a path
  that contains the pattern nowhere comes out with its backslashes turned into forward
  slashes and no other change.
\<close>

theorem translate_path_total:
  "translate_path_py (Some p) = Inr (translate_path p)
   \<and> translate_path p
       = normalize_separators (replace_str source_prefix destination_prefix p)
   \<and> (\<not> contains p source_prefix \<longrightarrow> translate_path p = normalize_separators p)"
  by (simp add: translate_path_py_def translate_path_eq replace_str_not_contained)

theorem translate_path_total_witness:
  "\<not> contains (''C:'' @ [backslash] @ ''tv'' @ [backslash] @ ''a.mkv'') source_prefix
   \<and> translate_path (''C:'' @ [backslash] @ ''tv'' @ [backslash] @ ''a.mkv'') = ''C:/tv/a.mkv''"
proof -
  have h: "\<not> contains (''C:'' @ [backslash] @ ''tv'' @ [backslash] @ ''a.mkv'') source_prefix"
    by (simp add: source_prefix_def startswith_def backslash_def)
  have n: "normalize_separators (''C:'' @ [backslash] @ ''tv'' @ [backslash] @ ''a.mkv'')
             = ''C:/tv/a.mkv''"
    by (simp add: normalize_separators_def backslash_def slash_def)
  from translate_path_total [of "''C:'' @ [backslash] @ ''tv'' @ [backslash] @ ''a.mkv''"] h n
  show ?thesis by simp
qed

text \<open>
  C10: translating twice is translating once. The first pass leaves no backslash, the
  source pattern holds one, so the second pass finds neither the pattern nor a separator
  to change.
\<close>

theorem translate_path_idempotent:
  "translate_path (translate_path p) = translate_path p"
proof -
  let ?q = "translate_path p"
  have nb: "backslash \<notin> set ?q" by (rule backslash_notin_translate_path)
  have "replace_str source_prefix destination_prefix ?q = ?q"
    using backslash_in_source_prefix nb by (rule replace_str_absent_char)
  then have "translate_path ?q = normalize_separators ?q"
    by (simp add: translate_path_eq)
  with nb show ?thesis by (simp add: normalize_separators_id)
qed

section \<open>Fingerprint formatting\<close>

lemma hex_not_dash: "is_hex_digit c \<Longrightarrow> c \<noteq> dash"
  by (auto simp: is_hex_digit_def dash_def)

lemma canonicalize_filter: "canonicalize k = filter (\<lambda>c. c \<noteq> dash) k"
  by (simp add: canonicalize_def sql_replace_def replace_str_delete)

lemma filter_hex_string: "hex_string g \<Longrightarrow> filter (\<lambda>c. c \<noteq> dash) g = g"
  unfolding hex_string_def by (induction g) (auto dest: hex_not_dash)

lemma hex_string_take: "hex_string f \<Longrightarrow> hex_string (take n f)"
  unfolding hex_string_def list_all_iff by (auto dest: in_set_takeD)

lemma hex_string_drop: "hex_string f \<Longrightarrow> hex_string (drop n f)"
  unfolding hex_string_def list_all_iff by (auto dest: in_set_dropD)

lemma groups_join:
  "take 8 k @ slice 8 12 k @ slice 12 16 k @ slice 16 20 k @ drop 20 k = k"
proof -
  have a: "slice 16 20 k @ drop 20 k = drop 16 k"
    unfolding slice_def using append_take_drop_id [of 4 "drop 16 k"] by simp
  have b: "slice 12 16 k @ drop 16 k = drop 12 k"
    unfolding slice_def using append_take_drop_id [of 4 "drop 12 k"] by simp
  have c: "slice 8 12 k @ drop 12 k = drop 8 k"
    unfolding slice_def using append_take_drop_id [of 4 "drop 8 k"] by simp
  show ?thesis by (simp add: a b c)
qed

lemma canonicalize_format_key:
  assumes "hex_string f"
  shows "canonicalize (format_key f) = f"
proof -
  have "canonicalize (format_key f)
      = take 8 f @ slice 8 12 f @ slice 12 16 f @ slice 16 20 f @ drop 20 f"
    using assms
    by (simp add: canonicalize_filter format_key_def slice_def filter_hex_string
        hex_string_take hex_string_drop)
  then show ?thesis by (simp add: groups_join)
qed

lemma format_key_groups:
  assumes "length g1 = 8" "length g2 = 4" "length g3 = 4" "length g4 = 4"
  shows "format_key (g1 @ g2 @ g3 @ g4 @ g5)
       = g1 @ [dash] @ g2 @ [dash] @ g3 @ [dash] @ g4 @ [dash] @ g5"
  using assms by (simp add: format_key_def slice_def)

lemma dashed_split:
  assumes "length d = 36"
  shows "d = take 8 d @ [d ! 8] @ slice 9 13 d @ [d ! 13] @ slice 14 18 d @ [d ! 18]
            @ slice 19 23 d @ [d ! 23] @ drop 24 d"
proof -
  have 1: "d = take 8 d @ d ! 8 # drop 9 d"
    using assms id_take_nth_drop [of 8 d] by simp
  have 2: "drop 9 d = slice 9 13 d @ d ! 13 # drop 14 d"
    using assms id_take_nth_drop [of 4 "drop 9 d"] by (simp add: slice_def)
  have 3: "drop 14 d = slice 14 18 d @ d ! 18 # drop 19 d"
    using assms id_take_nth_drop [of 4 "drop 14 d"] by (simp add: slice_def)
  have 4: "drop 19 d = slice 19 23 d @ d ! 23 # drop 24 d"
    using assms id_take_nth_drop [of 4 "drop 19 d"] by (simp add: slice_def)
  show ?thesis using 1 2 3 4 by simp
qed

lemma format_canonicalize_dashed:
  assumes "dashed_8_4_4_4_12 d"
  shows "format_key (canonicalize d) = d"
proof -
  let ?g1 = "take 8 d" and ?g2 = "slice 9 13 d" and ?g3 = "slice 14 18 d"
    and ?g4 = "slice 19 23 d" and ?g5 = "drop 24 d"
  from assms have len: "length d = 36"
    and h: "hex_string ?g1" "hex_string ?g2" "hex_string ?g3" "hex_string ?g4" "hex_string ?g5"
    and dd: "d ! 8 = dash" "d ! 13 = dash" "d ! 18 = dash" "d ! 23 = dash"
    by (simp_all add: dashed_8_4_4_4_12_def)
  have split: "d = ?g1 @ [dash] @ ?g2 @ [dash] @ ?g3 @ [dash] @ ?g4 @ [dash] @ ?g5"
    using dashed_split [OF len] dd by simp
  have "canonicalize d = filter (\<lambda>c. c \<noteq> dash) (?g1 @ [dash] @ ?g2 @ [dash] @ ?g3 @ [dash] @ ?g4 @ [dash] @ ?g5)"
    using split canonicalize_filter by metis
  then have can: "canonicalize d = ?g1 @ ?g2 @ ?g3 @ ?g4 @ ?g5"
    using h by (simp add: filter_hex_string)
  have lens: "length ?g1 = 8" "length ?g2 = 4" "length ?g3 = 4" "length ?g4 = 4"
    using len by (simp_all add: slice_def)
  have "format_key (?g1 @ ?g2 @ ?g3 @ ?g4 @ ?g5)
      = ?g1 @ [dash] @ ?g2 @ [dash] @ ?g3 @ [dash] @ ?g4 @ [dash] @ ?g5"
    by (rule format_key_groups [OF lens])
  with can split show ?thesis by simp
qed

text \<open>
  C4: for an undashed fingerprint of 32 hexadecimal characters, formatting, stripping the
  dashes and formatting again gives the formatted fingerprint; and a dashed fingerprint in
  the grouping 8-4-4-4-12 comes back unchanged from stripping and formatting.
\<close>

theorem fingerprint_round_trip:
  "(undashed32 f \<longrightarrow> format_key (canonicalize (format_key f)) = format_key f)
   \<and> (dashed_8_4_4_4_12 d \<longrightarrow> format_key (canonicalize d) = d)"
  by (simp add: undashed32_def canonicalize_format_key format_canonicalize_dashed)

theorem fingerprint_round_trip_witness:
  "undashed32 ''0123456789abcdef0123456789ABCDEF''
   \<and> dashed_8_4_4_4_12 ''9f8e7d6c-5b4a-3210-ffee-DDCCBBAA0011''
   \<and> format_key (canonicalize (format_key ''0123456789abcdef0123456789ABCDEF''))
       = ''01234567-89ab-cdef-0123-456789ABCDEF''
   \<and> format_key (canonicalize ''9f8e7d6c-5b4a-3210-ffee-DDCCBBAA0011'')
       = ''9f8e7d6c-5b4a-3210-ffee-DDCCBBAA0011''"
proof -
  have u: "undashed32 ''0123456789abcdef0123456789ABCDEF''"
    by (simp add: undashed32_def hex_string_def is_hex_digit_def)
  have d: "dashed_8_4_4_4_12 ''9f8e7d6c-5b4a-3210-ffee-DDCCBBAA0011''"
    by (simp add: dashed_8_4_4_4_12_def slice_def hex_string_def is_hex_digit_def dash_def)
  have f: "format_key ''0123456789abcdef0123456789ABCDEF''
             = ''01234567-89ab-cdef-0123-456789ABCDEF''"
    by (simp add: format_key_def slice_def dash_def)
  from fingerprint_round_trip [of "''0123456789abcdef0123456789ABCDEF''"
      "''9f8e7d6c-5b4a-3210-ffee-DDCCBBAA0011''"] u d f
  show ?thesis by simp
qed

section \<open>The Extractor: the claims\<close>

text \<open>
  C2, at an input the Extractor can receive: the account named Jellyfin owns a state row
  of a catalog entry. The query has no condition on the username, so the record of that
  account is in the artifact.
\<close>

theorem extractor_exports_system_account:
  "export_main
     [\<lparr>i_Name = Some ''Ep1'', i_Path = Some ''/m/e.mkv'', i_PresentationUniqueKey = Some ''abc''\<rparr>]
     [\<lparr>d_Key = ''a-bc'', d_UserId = 1, d_PlaybackPositionTicks = 500, d_LastPlayedDate = None\<rparr>]
     [\<lparr>u_InternalId = 1, u_Username = ''Jellyfin''\<rparr>]
   = [\<lparr>ItemName = Some ''Ep1'', Path = Some ''/m/e.mkv'', PlaybackPositionTicks = Some 500,
       LastPlayedDate = None, Username = Some ''Jellyfin'', PresentationUniqueKey = Some ''abc''\<rparr>]"
  by (simp add: export_main_def export_query_def canonicalize_def sql_replace_def
      startswith_def dash_def)

text \<open>
  C7, as the specification states it: no record of the artifact has a null or an empty
  path. The query tests \<^verbatim>\<open>IS NOT NULL\<close> only; a catalog entry whose path is the empty
  string passes.
\<close>

theorem extractor_empty_path_counterexample:
  "export_main
     [\<lparr>i_Name = Some ''Ep1'', i_Path = Some [], i_PresentationUniqueKey = Some ''abc''\<rparr>]
     [\<lparr>d_Key = ''a-bc'', d_UserId = 1, d_PlaybackPositionTicks = 500, d_LastPlayedDate = None\<rparr>]
     [\<lparr>u_InternalId = 1, u_Username = ''alice''\<rparr>]
   = [\<lparr>ItemName = Some ''Ep1'', Path = Some [], PlaybackPositionTicks = Some 500,
       LastPlayedDate = None, Username = Some ''alice'', PresentationUniqueKey = Some ''abc''\<rparr>]"
  by (simp add: export_main_def export_query_def canonicalize_def sql_replace_def
      startswith_def dash_def)

text \<open>
  C7, amended: the Extractor excludes every catalog entry whose path is null, so no record
  of the artifact has a null path.
\<close>

theorem extractor_path_not_null:
  "\<forall>r \<in> set (export_main items datas users). Path r \<noteq> None"
  by (auto simp: export_main_def export_query_def)

theorem extractor_path_not_null_witness:
  "hd (export_main
     [\<lparr>i_Name = Some ''Ep0'', i_Path = None, i_PresentationUniqueKey = Some ''abc''\<rparr>,
      \<lparr>i_Name = Some ''Ep1'', i_Path = Some ''/m/e.mkv'', i_PresentationUniqueKey = Some ''abc''\<rparr>]
     [\<lparr>d_Key = ''a-bc'', d_UserId = 1, d_PlaybackPositionTicks = 500, d_LastPlayedDate = None\<rparr>]
     [\<lparr>u_InternalId = 1, u_Username = ''alice''\<rparr>])
   \<in> set (export_main
     [\<lparr>i_Name = Some ''Ep0'', i_Path = None, i_PresentationUniqueKey = Some ''abc''\<rparr>,
      \<lparr>i_Name = Some ''Ep1'', i_Path = Some ''/m/e.mkv'', i_PresentationUniqueKey = Some ''abc''\<rparr>]
     [\<lparr>d_Key = ''a-bc'', d_UserId = 1, d_PlaybackPositionTicks = 500, d_LastPlayedDate = None\<rparr>]
     [\<lparr>u_InternalId = 1, u_Username = ''alice''\<rparr>])
   \<and> Path (hd (export_main
     [\<lparr>i_Name = Some ''Ep0'', i_Path = None, i_PresentationUniqueKey = Some ''abc''\<rparr>,
      \<lparr>i_Name = Some ''Ep1'', i_Path = Some ''/m/e.mkv'', i_PresentationUniqueKey = Some ''abc''\<rparr>]
     [\<lparr>d_Key = ''a-bc'', d_UserId = 1, d_PlaybackPositionTicks = 500, d_LastPlayedDate = None\<rparr>]
     [\<lparr>u_InternalId = 1, u_Username = ''alice''\<rparr>])) \<noteq> None"
proof -
  let ?a = "export_main
     [\<lparr>i_Name = Some ''Ep0'', i_Path = None, i_PresentationUniqueKey = Some ''abc''\<rparr>,
      \<lparr>i_Name = Some ''Ep1'', i_Path = Some ''/m/e.mkv'', i_PresentationUniqueKey = Some ''abc''\<rparr>]
     [\<lparr>d_Key = ''a-bc'', d_UserId = 1, d_PlaybackPositionTicks = 500, d_LastPlayedDate = None\<rparr>]
     [\<lparr>u_InternalId = 1, u_Username = ''alice''\<rparr>]"
  have ne: "?a \<noteq> []"
    by (simp add: export_main_def export_query_def canonicalize_def sql_replace_def
        startswith_def dash_def)
  then have m: "hd ?a \<in> set ?a" by simp
  with extractor_path_not_null [of
     "[\<lparr>i_Name = Some ''Ep0'', i_Path = None, i_PresentationUniqueKey = Some ''abc''\<rparr>,
      \<lparr>i_Name = Some ''Ep1'', i_Path = Some ''/m/e.mkv'', i_PresentationUniqueKey = Some ''abc''\<rparr>]"
     "[\<lparr>d_Key = ''a-bc'', d_UserId = 1, d_PlaybackPositionTicks = 500, d_LastPlayedDate = None\<rparr>]"
     "[\<lparr>u_InternalId = 1, u_Username = ''alice''\<rparr>]"]
  show ?thesis by blast
qed

section \<open>The Resolver: the claims\<close>

text \<open>
  C8, as the specification states it: a path that several catalog entries hold is a
  resolver error. Here two entries hold the path, and the Resolver returns the key of the
  first; its result has no value for an error.
\<close>

theorem resolver_duplicate_path_counterexample:
  "length (filter (\<lambda>i. i_Path i = Some ''/media/a.mkv'')
      [\<lparr>i_Name = None, i_Path = Some ''/media/a.mkv'', i_PresentationUniqueKey = Some ''k1''\<rparr>,
       \<lparr>i_Name = None, i_Path = Some ''/media/a.mkv'', i_PresentationUniqueKey = Some ''k2''\<rparr>]) = 2
   \<and> get_new_presentation_key
      [\<lparr>i_Name = None, i_Path = Some ''/media/a.mkv'', i_PresentationUniqueKey = Some ''k1''\<rparr>,
       \<lparr>i_Name = None, i_Path = Some ''/media/a.mkv'', i_PresentationUniqueKey = Some ''k2''\<rparr>]
      ''/media/a.mkv'' = Some ''k1''"
  by (simp add: get_new_presentation_key_def)

text \<open>
  C8, amended: when one or more catalog entries hold the translated path, the Resolver
  returns the key of the first of them in the order of the catalog and reports no error;
  the other entries are not looked at.
\<close>

theorem resolver_first_match:
  assumes "filter (\<lambda>i. i_Path i = Some p) new_lib \<noteq> []"
  shows "get_new_presentation_key new_lib p
           = i_PresentationUniqueKey (hd (filter (\<lambda>i. i_Path i = Some p) new_lib))"
  using assms
  by (induction new_lib) (auto simp: get_new_presentation_key_def)

theorem resolver_first_match_witness:
  "filter (\<lambda>i. i_Path i = Some ''/media/a.mkv'')
      [\<lparr>i_Name = None, i_Path = Some ''/media/b.mkv'', i_PresentationUniqueKey = Some ''k0''\<rparr>,
       \<lparr>i_Name = None, i_Path = Some ''/media/a.mkv'', i_PresentationUniqueKey = Some ''k1''\<rparr>,
       \<lparr>i_Name = None, i_Path = Some ''/media/a.mkv'', i_PresentationUniqueKey = Some ''k2''\<rparr>]
     \<noteq> []
   \<and> get_new_presentation_key
      [\<lparr>i_Name = None, i_Path = Some ''/media/b.mkv'', i_PresentationUniqueKey = Some ''k0''\<rparr>,
       \<lparr>i_Name = None, i_Path = Some ''/media/a.mkv'', i_PresentationUniqueKey = Some ''k1''\<rparr>,
       \<lparr>i_Name = None, i_Path = Some ''/media/a.mkv'', i_PresentationUniqueKey = Some ''k2''\<rparr>]
      ''/media/a.mkv'' = Some ''k1''"
proof -
  have h: "filter (\<lambda>i. i_Path i = Some ''/media/a.mkv'')
      [\<lparr>i_Name = None, i_Path = Some ''/media/b.mkv'', i_PresentationUniqueKey = Some ''k0''\<rparr>,
       \<lparr>i_Name = None, i_Path = Some ''/media/a.mkv'', i_PresentationUniqueKey = Some ''k1''\<rparr>,
       \<lparr>i_Name = None, i_Path = Some ''/media/a.mkv'', i_PresentationUniqueKey = Some ''k2''\<rparr>]
     \<noteq> []" by simp
  from resolver_first_match [OF h] h show ?thesis by simp
qed

section \<open>The Loader: insert-or-replace and the loop\<close>

lemma set_last_writes: "set (last_writes rs) \<subseteq> set rs"
  by (induction rs) auto

lemma keys_last_writes: "row_key ` set (last_writes rs) = row_key ` set rs"
  by (induction rs) auto

lemma foldl_insert_or_replace:
  "foldl insert_or_replace tbl rs
     = filter (\<lambda>r. row_key r \<notin> row_key ` set rs) tbl @ last_writes rs"
proof (induction rs arbitrary: tbl)
  case Nil
  then show ?case by simp
next
  case (Cons r rs)
  have "foldl insert_or_replace tbl (r # rs) = foldl insert_or_replace (insert_or_replace tbl r) rs"
    by simp
  also have "\<dots> = filter (\<lambda>x. row_key x \<notin> row_key ` set rs) (insert_or_replace tbl r)
                    @ last_writes rs"
    by (rule Cons.IH)
  also have "\<dots> = filter (\<lambda>x. row_key x \<notin> row_key ` set (r # rs)) tbl @ last_writes (r # rs)"
    by (auto simp: insert_or_replace_def intro: filter_cong)
  finally show ?case .
qed

lemma filter_last_writes_empty:
  "filter (\<lambda>r. row_key r \<notin> row_key ` set rs) (last_writes rs) = []"
  using set_last_writes [of rs] by (auto simp: filter_empty_conv)

lemma foldl_insert_or_replace_idem:
  "foldl insert_or_replace (foldl insert_or_replace tbl rs) rs = foldl insert_or_replace tbl rs"
  by (simp add: foldl_insert_or_replace [of _ rs] filter_last_writes_empty)

lemma distinct_insert_or_replace:
  "distinct (map row_key tbl) \<Longrightarrow> distinct (map row_key (insert_or_replace tbl r))"
  by (auto simp: insert_or_replace_def distinct_map_filter)

lemma distinct_foldl_insert_or_replace:
  "distinct (map row_key tbl) \<Longrightarrow> distinct (map row_key (foldl insert_or_replace tbl rs))"
  by (induction rs arbitrary: tbl) (simp_all add: distinct_insert_or_replace)


lemma distinct_last_writes: "distinct (map row_key (last_writes rs))"
proof (induction rs)
  case Nil
  then show ?case by simp
next
  case (Cons r rs)
  from keys_last_writes [of rs] have "row_key ` set (last_writes rs) = row_key ` set rs" .
  with Cons show ?case by auto
qed

lemma last_writes_append:
  "last_writes (xs @ ys)
     = filter (\<lambda>r. row_key r \<notin> row_key ` set ys) (last_writes xs) @ last_writes ys"
  by (induction xs) (auto simp: image_Un)

lemma filter_key_distinct:
  "distinct (map row_key xs) \<Longrightarrow> r \<in> set xs \<Longrightarrow> filter (\<lambda>x. row_key x = row_key r) xs = [r]"
proof (induction xs)
  case Nil
  then show ?case by simp
next
  case (Cons x xs)
  show ?case
  proof (cases "x = r")
    case True
    with Cons.prems have "row_key r \<notin> row_key ` set xs" by simp
    then have "\<forall>y\<in>set xs. row_key y \<noteq> row_key r" by (metis imageI)
    then have "filter (\<lambda>x. row_key x = row_key r) xs = []" by (simp add: filter_empty_conv)
    with True show ?thesis by simp
  next
    case False
    with Cons.prems have "r \<in> set xs" and "row_key x \<noteq> row_key r" by auto
    with Cons show ?thesis by simp
  qed
qed

lemma planned_rows_Cons:
  "planned_rows um lib (item # items) = planned_rows um lib [item] @ planned_rows um lib items"
  by (simp add: planned_rows_def)

lemma planned_rows_Nil: "planned_rows um lib [] = []"
  by (simp add: planned_rows_def)

lemma planned_rows_append:
  "planned_rows um lib (xs @ ys) = planned_rows um lib xs @ planned_rows um lib ys"
  by (simp add: planned_rows_def)

lemma planned_rows_insert:
  "decide_item um lib item = Inr (Insert row) \<Longrightarrow> planned_rows um lib [item] = [row]"
  by (simp add: planned_rows_def)

lemma planned_rows_decided:
  "r \<in> set (planned_rows um lib items) \<Longrightarrow>
     \<exists>item\<in>set items. decide_item um lib item = Inr (Insert r)"
  by (auto simp: planned_rows_def split: sum.splits decision.splits)

lemma process_item_Inr:
  assumes "process_item env um lib st item = Inr st'"
  shows "committed (new_lib_conn st') = committed (new_lib_conn st)
       \<and> visible (new_lib_conn st')
           = foldl insert_or_replace (visible (new_lib_conn st)) (planned_rows um lib [item])"
  using assms
  by (auto simp: process_item_def planned_rows_def execute_insert_def print_message_def
      visible_def split: sum.splits decision.splits if_splits option.splits)

lemma process_item_Inl:
  assumes "process_item env um lib st item = Inl (e, st')"
  shows "st' = st"
  using assms
  by (auto simp: process_item_def print_message_def split: sum.splits decision.splits if_splits)

lemma migrate_Inr:
  assumes "migrate env um lib st items = Inr st'"
  shows "committed (new_lib_conn st') = committed (new_lib_conn st)
       \<and> visible (new_lib_conn st')
           = foldl insert_or_replace (visible (new_lib_conn st)) (planned_rows um lib items)"
  using assms
proof (induction items arbitrary: st)
  case Nil
  then show ?case by (simp add: planned_rows_Nil)
next
  case (Cons item items)
  from Cons.prems obtain st1 where
    p: "process_item env um lib st item = Inr st1" and
    m: "migrate env um lib st1 items = Inr st'"
    by (auto split: sum.splits)
  from process_item_Inr [OF p] Cons.IH [OF m] show ?case
    by (simp add: planned_rows_Cons [of um lib item items])
qed

lemma migrate_Inl:
  assumes "migrate env um lib st items = Inl (e, st')"
  shows "committed (new_lib_conn st') = committed (new_lib_conn st)"
  using assms
proof (induction items arbitrary: st)
  case Nil
  then show ?case by simp
next
  case (Cons item items)
  show ?case
  proof (cases "process_item env um lib st item")
    case (Inl a)
    with Cons.prems have "a = (e, st')" by simp
    with Inl process_item_Inl have "st' = st" by blast
    then show ?thesis by simp
  next
    case (Inr st1)
    with Cons.prems have "migrate env um lib st1 items = Inl (e, st')" by simp
    from Cons.IH [OF this] process_item_Inr [OF Inr] show ?thesis by simp
  qed
qed

lemma initial_state_conn [simp]:
  "new_lib_conn (initial_state users art tbl) = connect tbl"
  by (simp add: initial_state_def)

lemma load_not_started:
  assumes "\<not> encodes env (found_users users)"
  shows "load env users lib art tbl = tbl"
  using assms by (simp add: load_def loader_main_def)

lemma try_body_migrate_Inl:
  "migrate env um lib st0 art = Inl raised \<Longrightarrow> try_body env um lib st0 art = Inl raised"
  by (simp add: try_body_def)

lemma try_body_Inl:
  assumes "try_body env um lib st0 art = Inl (e, st)"
  shows "committed (new_lib_conn st) = committed (new_lib_conn st0)"
proof (cases "migrate env um lib st0 art")
  case (Inl raised)
  with assms have "migrate env um lib st0 art = Inl (e, st)" by (simp add: try_body_def)
  from migrate_Inl [OF this] show ?thesis .
next
  case (Inr st1)
  with assms have "st = st1" by (auto simp: try_body_def split: sum.splits)
  with migrate_Inr [OF Inr] show ?thesis by simp
qed

lemma try_body_Inr:
  assumes "try_body env um lib st0 art = Inr st"
  shows "pending (new_lib_conn st) = None
       \<and> committed (new_lib_conn st)
           = foldl insert_or_replace (visible (new_lib_conn st0)) (planned_rows um lib art)"
proof -
  from assms obtain st1 conn where
    m: "migrate env um lib st0 art = Inr st1" and
    c: "commit env (new_lib_conn st1) = Inr conn" and
    s: "new_lib_conn st = conn"
    by (auto simp: try_body_def split: sum.splits)
  from c
  have "conn = (new_lib_conn st1)\<lparr>committed := visible (new_lib_conn st1), pending := None\<rparr>"
    by (simp add: commit_def split: if_splits)
  with s have "pending (new_lib_conn st) = None"
    and "committed (new_lib_conn st) = visible (new_lib_conn st1)"
    by simp_all
  with migrate_Inr [OF m] show ?thesis by simp
qed

lemma load_failed:
  assumes "try_body env (get_user_map users) lib (initial_state users art tbl) art = Inl (e, st)"
  shows "load env users lib art tbl = tbl"
proof -
  from try_body_Inl [OF assms] have "committed (new_lib_conn st) = tbl"
    by (simp add: connect_def)
  with assms show ?thesis
    by (cases e) (simp_all add: load_def loader_main_def close_def rollback_def)
qed

lemma load_committed:
  assumes "encodes env (found_users users)"
    and "try_body env (get_user_map users) lib (initial_state users art tbl) art = Inr st"
  shows "load env users lib art tbl
           = foldl insert_or_replace tbl (planned_rows (get_user_map users) lib art)"
proof -
  from try_body_Inr [OF assms(2)]
  have "committed (new_lib_conn st)
          = foldl insert_or_replace tbl (planned_rows (get_user_map users) lib art)"
    by (simp add: connect_def visible_def)
  with assms show ?thesis
    by (simp add: load_def loader_main_def close_def)
qed

lemma load_cases:
  "load env users lib art tbl = tbl
   \<or> load env users lib art tbl
        = foldl insert_or_replace tbl (planned_rows (get_user_map users) lib art)"
proof (cases "encodes env (found_users users)")
  case False
  then show ?thesis by (simp add: load_not_started)
next
  case True
  show ?thesis
  proof (cases "try_body env (get_user_map users) lib (initial_state users art tbl) art")
    case (Inl a)
    then show ?thesis using load_failed by (cases a) blast
  next
    case (Inr st)
    with True show ?thesis using load_committed by blast
  qed
qed

lemma load_idem: "load env users lib art (load env users lib art tbl) = load env users lib art tbl"
proof -
  let ?rows = "planned_rows (get_user_map users) lib art"
  from load_cases [of env users lib art tbl] show ?thesis
  proof
    assume "load env users lib art tbl = tbl"
    then show ?thesis by simp
  next
    assume a: "load env users lib art tbl = foldl insert_or_replace tbl ?rows"
    from load_cases [of env users lib art "foldl insert_or_replace tbl ?rows"]
    have "load env users lib art (foldl insert_or_replace tbl ?rows)
            = foldl insert_or_replace tbl ?rows"
      by (auto simp: foldl_insert_or_replace_idem)
    with a show ?thesis by simp
  qed
qed

lemma load_distinct:
  "distinct (map row_key tbl) \<Longrightarrow> distinct (map row_key (load env users lib art tbl))"
  using load_cases [of env users lib art tbl]
  by (auto simp: distinct_foldl_insert_or_replace)

section \<open>The scenario, evaluated\<close>

lemma scenario_user_map:
  "get_user_map scenario_users = [''alice'' \<mapsto> ''u-alice'']"
  by (simp add: get_user_map_def scenario_users_def)

lemma translate_scenario_path: "translate_path scenario_path = ''/media/Show/ep1.mkv''"
  by (simp add: translate_path_def scenario_path_def source_prefix_def destination_prefix_def
      startswith_def backslash_def slash_def)

lemma translate_nowhere: "translate_path ''/nowhere/ep9.mkv'' = ''/nowhere/ep9.mkv''"
  by (simp add: translate_path_def source_prefix_def destination_prefix_def
      startswith_def backslash_def slash_def)

lemma resolve_scenario:
  "get_new_presentation_key scenario_lib ''/media/Show/ep1.mkv''
     = Some ''9f8e7d6c5b4a3210ffeeddccbbaa0011''"
  by (simp add: get_new_presentation_key_def scenario_lib_def)

lemma resolve_nowhere:
  "get_new_presentation_key scenario_lib ''/nowhere/ep9.mkv'' = None"
  by (simp add: get_new_presentation_key_def scenario_lib_def)

lemma format_scenario:
  "format_key ''9f8e7d6c5b4a3210ffeeddccbbaa0011'' = ''9f8e7d6c-5b4a-3210-ffee-ddccbbaa0011''"
  by (simp add: format_key_def slice_def dash_def)

lemma decide_alice:
  "decide_item (get_user_map scenario_users) scenario_lib alice_record = Inr (Insert alice_row)"
  by (simp add: decide_item_def scenario_user_map alice_record_def py_not_def
      translate_path_py_def translate_scenario_path resolve_scenario format_scenario
      alice_row_def)

lemma decide_alice_null:
  "decide_item (get_user_map scenario_users) scenario_lib alice_null_position
     = Inr (Insert (alice_row\<lparr>ud_PlaybackPositionTicks := None\<rparr>))"
  by (simp add: decide_item_def scenario_user_map alice_record_def alice_null_position_def
      py_not_def translate_path_py_def translate_scenario_path resolve_scenario format_scenario
      alice_row_def)

lemma decide_alice_huge:
  "decide_item (get_user_map scenario_users) scenario_lib alice_huge_position
     = Inr (Insert (alice_row\<lparr>ud_PlaybackPositionTicks := Some 9223372036854775808\<rparr>))"
  by (simp add: decide_item_def scenario_user_map alice_record_def alice_huge_position_def
      py_not_def translate_path_py_def translate_scenario_path resolve_scenario format_scenario
      alice_row_def)

lemma decide_bob:
  "decide_item (get_user_map scenario_users) scenario_lib bob_record
     = Inr (SkipUser (Some ''Ep1'') (Some ''bob''))"
  by (simp add: decide_item_def scenario_user_map alice_record_def bob_record_def py_not_def)

lemma decide_unknown_media:
  "decide_item (get_user_map scenario_users) scenario_lib unknown_media_record
     = Inr (SkipMedia (Some ''Ep1'') ''/nowhere/ep9.mkv'')"
  by (simp add: decide_item_def scenario_user_map alice_record_def unknown_media_record_def
      py_not_def translate_path_py_def translate_nowhere resolve_nowhere)

lemma scenario_found_users: "found_users scenario_users = FoundUsers [''alice'']"
  by (simp add: found_users_def scenario_users_def)

lemma alice_keys:
  "row_key earlier_row = row_key alice_row"
  "row_key (alice_row\<lparr>ud_PlaybackPositionTicks := pos\<rparr>) = row_key alice_row"
  by (simp_all add: row_key_def alice_row_def earlier_row_def)

lemma binds_alice_row:
  "binds alice_row"
  "binds (alice_row\<lparr>ud_PlaybackPositionTicks := None\<rparr>)"
  "\<not> binds (alice_row\<lparr>ud_PlaybackPositionTicks := Some 9223372036854775808\<rparr>)"
  by (simp_all add: binds_def sqlite_integer_def alice_row_def)

lemma never_rejects_simps [simp]:
  "encodes never_rejects m"
  "\<not> refuses_statement never_rejects tbl"
  "\<not> refuses_row never_rejects tbl row"
  "\<not> refuses_commit never_rejects tbl"
  "encodes rejects_null_position m"
  "\<not> refuses_statement rejects_null_position tbl"
  "refuses_row rejects_null_position tbl row = (ud_PlaybackPositionTicks row = None)"
  "\<not> refuses_commit rejects_null_position tbl"
  by (simp_all add: never_rejects_def rejects_null_position_def)

lemma scenario_run:
  "loader_main never_rejects scenario_users scenario_lib [alice_record] [earlier_row]
    = \<lparr>user_datas = [alice_row],
       printed = [Connected, Loaded 1, FoundUsers [''alice''], MigrationComplete 1, ConnectionsClosed],
       uncaught = None\<rparr>"
  by (simp add: loader_main_def try_body_def Let_def initial_state_def scenario_found_users
      process_item_def
      decide_alice execute_insert_def binds_alice_row connect_def visible_def
      insert_or_replace_def commit_def close_def alice_keys)

lemma scenario_failed_run:
  "loader_main rejects_null_position scenario_users scenario_lib
      [alice_record, alice_null_position] [earlier_row]
    = \<lparr>user_datas = [earlier_row],
       printed = [Connected, Loaded 2, FoundUsers [''alice''], MigrationError, ConnectionsClosed],
       uncaught = None\<rparr>"
  by (simp add: loader_main_def try_body_def Let_def initial_state_def scenario_found_users
      process_item_def
      decide_alice decide_alice_null execute_insert_def binds_def sqlite_integer_def
      connect_def visible_def insert_or_replace_def rollback_def close_def alice_keys
      alice_row_def)

lemma scenario_overflow_run:
  "loader_main never_rejects scenario_users scenario_lib
      [alice_record, alice_huge_position] [earlier_row]
    = \<lparr>user_datas = [earlier_row],
       printed = [Connected, Loaded 2, FoundUsers [''alice''], ConnectionsClosed],
       uncaught = Some OverflowError\<rparr>"
  by (simp add: loader_main_def try_body_def Let_def initial_state_def scenario_found_users
      process_item_def
      decide_alice decide_alice_huge execute_insert_def binds_alice_row connect_def
      visible_def insert_or_replace_def close_def alice_keys)

lemma scenario_sqlite_failure:
  "upsert_failure rejects_null_position scenario_users scenario_lib
      [alice_record, alice_null_position] [earlier_row] = Some SqliteError"
  by (simp add: upsert_failure_def initial_state_def scenario_found_users process_item_def
      decide_alice decide_alice_null execute_insert_def binds_def sqlite_integer_def
      connect_def visible_def insert_or_replace_def alice_keys alice_row_def)

lemma scenario_overflow_failure:
  "upsert_failure never_rejects scenario_users scenario_lib
      [alice_record, alice_huge_position] [earlier_row] = Some OverflowError"
  by (simp add: upsert_failure_def initial_state_def scenario_found_users process_item_def
      decide_alice decide_alice_huge execute_insert_def binds_alice_row connect_def
      visible_def insert_or_replace_def alice_keys)

lemma scenario_skipping_run:
  "loader_main never_rejects scenario_users scenario_lib [bob_record, unknown_media_record] [earlier_row]
    = \<lparr>user_datas = [earlier_row],
       printed = [Connected, Loaded 2, FoundUsers [''alice''],
                  SkippingUserNotFound (Some ''Ep1'') (Some ''bob''),
                  SkippingMediaNotFound (Some ''Ep1'') ''/nowhere/ep9.mkv'',
                  MigrationComplete 0, ConnectionsClosed],
       uncaught = None\<rparr>"
  by (simp add: loader_main_def try_body_def Let_def initial_state_def scenario_found_users
      process_item_def
      print_message_def decide_bob decide_unknown_media connect_def visible_def commit_def
      close_def)

lemma scenario_one_skip_run:
  "loader_main never_rejects scenario_users scenario_lib [bob_record] [earlier_row]
    = \<lparr>user_datas = [earlier_row],
       printed = [Connected, Loaded 1, FoundUsers [''alice''],
                  SkippingUserNotFound (Some ''Ep1'') (Some ''bob''),
                  MigrationComplete 0, ConnectionsClosed],
       uncaught = None\<rparr>"
  by (simp add: loader_main_def try_body_def Let_def initial_state_def scenario_found_users
      process_item_def
      print_message_def decide_bob connect_def visible_def commit_def close_def)

section \<open>The Loader: the claims\<close>

lemma process_item_summary:
  "process_item env um lib st item = Inr st' \<Longrightarrow>
     filter is_summary (out st') = filter is_summary (out st)"
  by (auto simp: process_item_def print_message_def split: sum.splits decision.splits if_splits)

lemma migrate_summary:
  "migrate env um lib st items = Inr st' \<Longrightarrow>
     filter is_summary (out st') = filter is_summary (out st)"
proof (induction items arbitrary: st)
  case Nil
  then show ?case by simp
next
  case (Cons item items)
  from Cons.prems obtain st1 where
    p: "process_item env um lib st item = Inr st1" and
    m: "migrate env um lib st1 items = Inr st'"
    by (auto split: sum.splits)
  from process_item_summary [OF p] Cons.IH [OF m] show ?case by simp
qed

lemma migrate_summary_Inl:
  "migrate env um lib st items = Inl (e, st') \<Longrightarrow>
     filter is_summary (out st') = filter is_summary (out st)"
proof (induction items arbitrary: st)
  case Nil
  then show ?case by simp
next
  case (Cons item items)
  show ?case
  proof (cases "process_item env um lib st item")
    case (Inl a)
    with Cons.prems have "a = (e, st')" by simp
    with Inl process_item_Inl have "st' = st" by blast
    then show ?thesis by simp
  next
    case (Inr st1)
    with Cons.prems have "migrate env um lib st1 items = Inl (e, st')" by simp
    from Cons.IH [OF this] process_item_summary [OF Inr] show ?thesis by simp
  qed
qed

lemma initial_state_summary [simp]:
  "filter is_summary (out (initial_state users art tbl)) = []"
  by (simp add: initial_state_def found_users_def)

text \<open>
  An exception at a record for which the loop body reached the insert is the exception of
  \<^verbatim>\<open>cursor.execute\<close>, and it is \<^verbatim>\<open>sqlite3.Error\<close> or \<^verbatim>\<open>OverflowError\<close>.
\<close>

lemma process_item_insert_error:
  assumes "process_item env um lib st item = Inl (e, st')"
    and "decide_item um lib item = Inr (Insert row)"
  shows "execute_insert env (new_lib_conn st) row = Inl e \<and> (e = SqliteError \<or> e = OverflowError)"
  using assms
  by (auto simp: process_item_def execute_insert_def split: sum.splits if_splits)

lemma failed_insert_migrate:
  assumes "failed_insert env um lib st items = Some e"
  shows "(\<exists>st'. migrate env um lib st items = Inl (e, st')) \<and> (e = SqliteError \<or> e = OverflowError)"
  using assms
proof (induction items arbitrary: st)
  case Nil
  then show ?case by simp
next
  case (Cons item items)
  show ?case
  proof (cases "process_item env um lib st item")
    case (Inr st1)
    with Cons.prems have "failed_insert env um lib st1 items = Some e" by simp
    from Cons.IH [OF this] Inr show ?thesis by simp
  next
    case (Inl a)
    obtain e' st' where a: "a = (e', st')" by (cases a)
    with Inl Cons.prems obtain row where
      d: "decide_item um lib item = Inr (Insert row)" and e: "e' = e"
      by (auto split: sum.splits decision.splits)
    from process_item_insert_error [OF Inl [unfolded a] d] e Inl a show ?thesis by simp
  qed
qed

text \<open>
  \<^const>\<open>failed_insert\<close> finds the insert that fails: the records before it go through, and
  \<^verbatim>\<open>cursor.execute\<close> raises at the row made from the next record.
\<close>

lemma failed_insert_split:
  assumes "failed_insert env um lib st items = Some e"
  shows "\<exists>before item after st1 row.
           items = before @ item # after
         \<and> migrate env um lib st before = Inr st1
         \<and> decide_item um lib item = Inr (Insert row)
         \<and> execute_insert env (new_lib_conn st1) row = Inl e"
  using assms
proof (induction items arbitrary: st)
  case Nil
  then show ?case by simp
next
  case (Cons item items)
  show ?case
  proof (cases "process_item env um lib st item")
    case (Inr st1)
    with Cons.prems have "failed_insert env um lib st1 items = Some e" by simp
    from Cons.IH [OF this] obtain before item' after st2 row where
      s: "items = before @ item' # after"
      and m: "migrate env um lib st1 before = Inr st2"
      and d: "decide_item um lib item' = Inr (Insert row)"
      and x: "execute_insert env (new_lib_conn st2) row = Inl e"
      by blast
    from s have "item # items = (item # before) @ item' # after" by simp
    moreover from Inr m have "migrate env um lib st (item # before) = Inr st2" by simp
    ultimately show ?thesis using d x by blast
  next
    case (Inl a)
    obtain e' st' where a: "a = (e', st')" by (cases a)
    with Inl Cons.prems obtain row where
      d: "decide_item um lib item = Inr (Insert row)" and e: "e' = e"
      by (auto split: sum.splits decision.splits)
    from process_item_insert_error [OF Inl [unfolded a] d] e
    have x: "execute_insert env (new_lib_conn st) row = Inl e" by simp
    have "item # items = [] @ item # items" by simp
    moreover have "migrate env um lib st [] = Inr st" by simp
    ultimately show ?thesis using d x by blast
  qed
qed

lemma failed_insert_found:
  assumes "migrate env um lib st before = Inr st1"
    and "decide_item um lib item = Inr (Insert row)"
    and "execute_insert env (new_lib_conn st1) row = Inl e"
  shows "failed_insert env um lib st (before @ item # after) = Some e"
  using assms
proof (induction before arbitrary: st)
  case Nil
  then show ?case by (simp add: process_item_def)
next
  case (Cons b before)
  from Cons.prems(1) obtain st' where
    p: "process_item env um lib st b = Inr st'" and m: "migrate env um lib st' before = Inr st1"
    by (auto split: sum.splits)
  from Cons.IH [OF m Cons.prems(2) Cons.prems(3)] p show ?case by simp
qed

text \<open>
  A commit that the store refuses is reported like a refused insert, and it too leaves
  the destination table as it was.
\<close>

lemma refused_commit_discards_batch:
  assumes "encodes env (found_users new_users)"
    and "migrate env (get_user_map new_users) new_lib
           (initial_state new_users watched_data tbl) watched_data = Inr st"
    and "refuses_commit env (visible (new_lib_conn st))"
  shows "user_datas (loader_main env new_users new_lib watched_data tbl) = tbl
       \<and> run_end_summary (loader_main env new_users new_lib watched_data tbl)
           = [MigrationError, ConnectionsClosed]
       \<and> uncaught (loader_main env new_users new_lib watched_data tbl) = None"
proof -
  from assms(2,3)
  have t: "try_body env (get_user_map new_users) new_lib
          (initial_state new_users watched_data tbl) watched_data = Inl (SqliteError, st)"
    by (simp add: try_body_def commit_def)
  from load_failed [OF t]
  have 1: "user_datas (loader_main env new_users new_lib watched_data tbl) = tbl"
    by (simp add: load_def)
  from migrate_summary [OF assms(2)] have "filter is_summary (out st) = []" by simp
  with t assms(1) 1 show ?thesis by (simp add: run_end_summary_def loader_main_def)
qed

text \<open>
  C5, as the specification states it: the run reports the error of an upsert that fails.
  Here the second record carries a playback position of 2^63 ticks; binding it raises
  \<^verbatim>\<open>OverflowError\<close>, which is not a \<^verbatim>\<open>sqlite3.Error\<close>: the run prints no error message, and
  the exception leaves \<^verbatim>\<open>main\<close> once the connections are closed.
\<close>

theorem unreported_upsert_failure_counterexample:
  "upsert_failure never_rejects scenario_users scenario_lib
      [alice_record, alice_huge_position] [earlier_row] = Some OverflowError
   \<and> printed (loader_main never_rejects scenario_users scenario_lib
        [alice_record, alice_huge_position] [earlier_row])
       = [Connected, Loaded 2, FoundUsers [''alice''], ConnectionsClosed]
   \<and> MigrationError \<notin> set (printed (loader_main never_rejects scenario_users scenario_lib
        [alice_record, alice_huge_position] [earlier_row]))
   \<and> uncaught (loader_main never_rejects scenario_users scenario_lib
        [alice_record, alice_huge_position] [earlier_row]) = Some OverflowError"
  by (simp add: scenario_overflow_failure scenario_overflow_run)

text \<open>
  C5, amended: when an upsert fails during a run, whatever the exception, nothing of the
  batch is committed: the destination table after the run is the table before it. When
  the exception is \<^verbatim>\<open>sqlite3.Error\<close> the run ends with the error message and no exception
  leaves \<^verbatim>\<open>main\<close>. When it is another exception (\<^verbatim>\<open>OverflowError\<close>, for a position
  outside 64 bits) the run prints no error message, closes the connections, and the
  exception leaves \<^verbatim>\<open>main\<close>.
\<close>

theorem failed_upsert_discards_batch:
  assumes "upsert_failure env new_users new_lib watched_data tbl = Some e"
  shows "user_datas (loader_main env new_users new_lib watched_data tbl) = tbl
       \<and> (e = SqliteError \<longrightarrow>
            run_end_summary (loader_main env new_users new_lib watched_data tbl)
              = [MigrationError, ConnectionsClosed]
          \<and> uncaught (loader_main env new_users new_lib watched_data tbl) = None)
       \<and> (e \<noteq> SqliteError \<longrightarrow>
            run_end_summary (loader_main env new_users new_lib watched_data tbl)
              = [ConnectionsClosed]
          \<and> uncaught (loader_main env new_users new_lib watched_data tbl) = Some e)"
proof -
  from assms have enc: "encodes env (found_users new_users)"
    and f: "failed_insert env (get_user_map new_users) new_lib
              (initial_state new_users watched_data tbl) watched_data = Some e"
    by (simp_all add: upsert_failure_def split: if_splits)
  from failed_insert_migrate [OF f] obtain st where
    m: "migrate env (get_user_map new_users) new_lib
          (initial_state new_users watched_data tbl) watched_data = Inl (e, st)"
    by blast
  from try_body_migrate_Inl [OF m]
  have t: "try_body env (get_user_map new_users) new_lib
          (initial_state new_users watched_data tbl) watched_data = Inl (e, st)" .
  from load_failed [OF t]
  have 1: "user_datas (loader_main env new_users new_lib watched_data tbl) = tbl"
    by (simp add: load_def)
  from migrate_summary_Inl [OF m] have s: "filter is_summary (out st) = []" by simp
  have 2: "run_end_summary (loader_main env new_users new_lib watched_data tbl)
              = [MigrationError, ConnectionsClosed]
          \<and> uncaught (loader_main env new_users new_lib watched_data tbl) = None"
    if "e = SqliteError"
    using that t enc s by (simp add: run_end_summary_def loader_main_def)
  have 3: "run_end_summary (loader_main env new_users new_lib watched_data tbl)
              = [ConnectionsClosed]
          \<and> uncaught (loader_main env new_users new_lib watched_data tbl) = Some e"
    if "e \<noteq> SqliteError"
    using that t enc s by (cases e) (simp_all add: run_end_summary_def loader_main_def)
  from 1 2 3 show ?thesis by blast
qed

theorem failed_upsert_discards_batch_witness:
  "upsert_failure rejects_null_position scenario_users scenario_lib
      [alice_record, alice_null_position] [earlier_row] = Some SqliteError
   \<and> user_datas (loader_main rejects_null_position scenario_users scenario_lib
        [alice_record, alice_null_position] [earlier_row]) = [earlier_row]
   \<and> run_end_summary (loader_main rejects_null_position scenario_users scenario_lib
        [alice_record, alice_null_position] [earlier_row]) = [MigrationError, ConnectionsClosed]
   \<and> uncaught (loader_main rejects_null_position scenario_users scenario_lib
        [alice_record, alice_null_position] [earlier_row]) = None
   \<and> upsert_failure never_rejects scenario_users scenario_lib
        [alice_record, alice_huge_position] [earlier_row] = Some OverflowError
   \<and> user_datas (loader_main never_rejects scenario_users scenario_lib
        [alice_record, alice_huge_position] [earlier_row]) = [earlier_row]
   \<and> run_end_summary (loader_main never_rejects scenario_users scenario_lib
        [alice_record, alice_huge_position] [earlier_row]) = [ConnectionsClosed]
   \<and> uncaught (loader_main never_rejects scenario_users scenario_lib
        [alice_record, alice_huge_position] [earlier_row]) = Some OverflowError"
  using failed_upsert_discards_batch [OF scenario_sqlite_failure]
    failed_upsert_discards_batch [OF scenario_overflow_failure]
    scenario_sqlite_failure scenario_overflow_failure
  by simp

text \<open>
  C1: a second run of the Loader on the same artifact, against the table the first run
  left, leaves that table as it is: no row is added, and a table with at most one row for
  each pair (Key, UserId) stays so.
\<close>

theorem loader_idempotent:
  "load env new_users new_lib watched_data
       (load env new_users new_lib watched_data tbl)
     = load env new_users new_lib watched_data tbl
   \<and> length (load env new_users new_lib watched_data
               (load env new_users new_lib watched_data tbl))
     = length (load env new_users new_lib watched_data tbl)
   \<and> (distinct (map row_key tbl)
        \<longrightarrow> distinct (map row_key (load env new_users new_lib watched_data tbl)))"
  by (simp add: load_idem load_distinct)

lemma scenario_load:
  "load never_rejects scenario_users scenario_lib [alice_record] [earlier_row] = [alice_row]"
  by (simp add: load_def scenario_run)

theorem loader_idempotent_witness:
  "distinct (map row_key [earlier_row])
   \<and> load never_rejects scenario_users scenario_lib [alice_record]
        (load never_rejects scenario_users scenario_lib [alice_record] [earlier_row])
       = [alice_row]
   \<and> distinct (map row_key
        (load never_rejects scenario_users scenario_lib [alice_record] [earlier_row]))"
proof -
  have d: "distinct (map row_key [earlier_row])" by simp
  from loader_idempotent [of never_rejects scenario_users scenario_lib "[alice_record]"
      "[earlier_row]"] d scenario_load
  show ?thesis by simp
qed

text \<open>
  The rows a run makes carry the fixed values of the insert and the record's position and
  date; a row of the table a run leaves was in the table before the run, or is such a row.
\<close>

lemma decide_item_insert_fixed:
  assumes "decide_item um lib item = Inr (Insert r)"
  shows "Played r = 1 \<and> PlayCount r = 1 \<and> IsFavorite r = 0
       \<and> AudioStreamIndex r = - 1 \<and> SubtitleStreamIndex r = - 1
       \<and> ud_PlaybackPositionTicks r = PlaybackPositionTicks item
       \<and> ud_LastPlayedDate r = LastPlayedDate item"
  using assms
  by (auto simp: decide_item_def Let_def split: if_splits sum.splits)

lemma planned_rows_fixed:
  assumes "r \<in> set (planned_rows um lib items)"
  shows "Played r = 1 \<and> PlayCount r = 1 \<and> IsFavorite r = 0
       \<and> AudioStreamIndex r = - 1 \<and> SubtitleStreamIndex r = - 1"
proof -
  from planned_rows_decided [OF assms] obtain item where
    "decide_item um lib item = Inr (Insert r)" by blast
  from decide_item_insert_fixed [OF this] show ?thesis by simp
qed

lemma set_foldl_insert_or_replace:
  "set (foldl insert_or_replace tbl rs) \<subseteq> set tbl \<union> set rs"
  using set_last_writes [of rs] by (auto simp: foldl_insert_or_replace)

lemma loaded_rows_fixed_fields:
  assumes "r \<in> set (load env users lib art tbl)"
  shows "r \<in> set tbl
       \<or> (Played r = 1 \<and> PlayCount r = 1 \<and> IsFavorite r = 0
          \<and> AudioStreamIndex r = - 1 \<and> SubtitleStreamIndex r = - 1)"
proof -
  from load_cases [of env users lib art tbl] assms
  have "r \<in> set tbl \<or> r \<in> set (planned_rows (get_user_map users) lib art)"
    using set_foldl_insert_or_replace [of tbl "planned_rows (get_user_map users) lib art"]
    by auto
  then show ?thesis using planned_rows_fixed by blast
qed

text \<open>The one row that a committed run leaves for a key it writes.\<close>

lemma committed_row_for_key:
  assumes "key \<in> row_key ` set rs"
  shows "\<exists>r. filter (\<lambda>x. row_key x = key) (foldl insert_or_replace tbl rs) = [r]
           \<and> r \<in> set (last_writes rs) \<and> row_key r = key"
proof -
  from assms keys_last_writes [of rs] obtain r where
    r: "r \<in> set (last_writes rs)" and k: "row_key r = key"
    by (metis imageE)
  from filter_key_distinct [OF distinct_last_writes r] k
  have 1: "filter (\<lambda>x. row_key x = key) (last_writes rs) = [r]" by simp
  from assms
  have 2: "filter (\<lambda>x. row_key x = key) (filter (\<lambda>x. row_key x \<notin> row_key ` set rs) tbl) = []"
    by (auto simp: filter_empty_conv)
  from 1 2 r k show ?thesis by (auto simp: foldl_insert_or_replace)
qed

lemma last_writes_later:
  assumes "r \<in> set (last_writes (xs @ ys))" and "row_key r \<in> row_key ` set ys"
  shows "r \<in> set (last_writes ys)"
  using assms by (auto simp: last_writes_append)

text \<open>
  C6: in a run that commits, take a record of the artifact that passes both
  checks (its username maps to a user id that is not empty, and its translated path
  resolves to a key that is not empty). The row made from it has Played 1, PlayCount 1,
  IsFavorite 0, both stream indexes -1, and the record's position and last-played date as
  they are. The destination table after the run holds exactly one row for the record's
  pair (Key, UserId); that row carries the five fixed values, and it was made from this
  record or from a later record of the artifact with the same pair, whose position and
  last-played date it carries as they are; and when no later record is written for the
  same pair, it is the row made from this record.
\<close>

theorem written_row_fields:
  assumes "commits env new_users new_lib (before @ item # after) tbl"
    and "Username item = Some u" and "get_user_map new_users u = Some uid" and "uid \<noteq> []"
    and "Path item = Some p"
    and "get_new_presentation_key new_lib (translate_path p) = Some k" and "k \<noteq> []"
  shows "let row = \<lparr>Key = format_key k, UserId = uid, Played = 1, PlayCount = 1,
                     IsFavorite = 0,
                     ud_PlaybackPositionTicks = PlaybackPositionTicks item,
                     ud_LastPlayedDate = LastPlayedDate item,
                     AudioStreamIndex = - 1, SubtitleStreamIndex = - 1\<rparr>;
             table = load env new_users new_lib (before @ item # after) tbl
         in decide_item (get_user_map new_users) new_lib item = Inr (Insert row)
            \<and> (\<exists>r. filter (\<lambda>x. row_key x = (format_key k, uid)) table = [r]
                  \<and> Played r = 1 \<and> PlayCount r = 1 \<and> IsFavorite r = 0
                  \<and> AudioStreamIndex r = - 1 \<and> SubtitleStreamIndex r = - 1
                  \<and> (\<exists>item'\<in>set (item # after).
                        decide_item (get_user_map new_users) new_lib item' = Inr (Insert r)
                      \<and> ud_PlaybackPositionTicks r = PlaybackPositionTicks item'
                      \<and> ud_LastPlayedDate r = LastPlayedDate item'))
            \<and> ((\<forall>item'\<in>set after. \<forall>r.
                   decide_item (get_user_map new_users) new_lib item' = Inr (Insert r)
                     \<longrightarrow> row_key r \<noteq> (format_key k, uid))
                 \<longrightarrow> filter (\<lambda>x. row_key x = (format_key k, uid)) table = [row])"
proof -
  let ?um = "get_user_map new_users"
  let ?art = "before @ item # after"
  let ?key = "(format_key k, uid)"
  let ?row = "\<lparr>Key = format_key k, UserId = uid, Played = 1, PlayCount = 1,
                     IsFavorite = 0,
                     ud_PlaybackPositionTicks = PlaybackPositionTicks item,
                     ud_LastPlayedDate = LastPlayedDate item,
                     AudioStreamIndex = - 1, SubtitleStreamIndex = - 1\<rparr>"
  let ?later = "planned_rows ?um new_lib after"
  let ?rows = "planned_rows ?um new_lib ?art"
  let ?table = "load env new_users new_lib ?art tbl"
  have d: "decide_item ?um new_lib item = Inr (Insert ?row)"
    using assms(2-7) by (simp add: decide_item_def Let_def py_not_def translate_path_py_def)
  have key: "row_key ?row = ?key" by (simp add: row_key_def)
  have rows: "?rows = planned_rows ?um new_lib before @ (?row # ?later)"
    using planned_rows_insert [OF d] planned_rows_Cons [of ?um new_lib item after]
    by (simp add: planned_rows_append)
  from assms(1) obtain st where
    enc: "encodes env (found_users new_users)" and
    m: "try_body env ?um new_lib (initial_state new_users ?art tbl) ?art = Inr st"
    by (auto simp: commits_def split: sum.splits)
  from load_committed [OF enc m] have table: "?table = foldl insert_or_replace tbl ?rows" .
  from rows key have "?key \<in> row_key ` set ?rows" by force
  from committed_row_for_key [OF this, of tbl] table obtain r where
    f: "filter (\<lambda>x. row_key x = ?key) ?table = [r]" and
    r: "r \<in> set (last_writes ?rows)" and rk: "row_key r = ?key"
    by auto
  from r set_last_writes have "r \<in> set ?rows" by blast
  from planned_rows_fixed [OF this]
  have fixed: "Played r = 1 \<and> PlayCount r = 1 \<and> IsFavorite r = 0
       \<and> AudioStreamIndex r = - 1 \<and> SubtitleStreamIndex r = - 1" .
  from rk key have "row_key r \<in> row_key ` set (?row # ?later)" by simp
  with r rows have lw: "r \<in> set (last_writes (?row # ?later))"
    using last_writes_later [of r "planned_rows ?um new_lib before" "?row # ?later"] by simp
  with set_last_writes have "r = ?row \<or> r \<in> set ?later" by fastforce
  then have "\<exists>item'\<in>set (item # after). decide_item ?um new_lib item' = Inr (Insert r)"
  proof
    assume "r = ?row"
    with d show ?thesis by simp
  next
    assume "r \<in> set ?later"
    from planned_rows_decided [OF this] show ?thesis by auto
  qed
  then have origin: "\<exists>item'\<in>set (item # after).
        decide_item ?um new_lib item' = Inr (Insert r)
      \<and> ud_PlaybackPositionTicks r = PlaybackPositionTicks item'
      \<and> ud_LastPlayedDate r = LastPlayedDate item'"
    using decide_item_insert_fixed [of ?um new_lib _ r] by blast
  have last: "r = ?row"
    if no_later: "\<forall>item'\<in>set after. \<forall>r.
                   decide_item ?um new_lib item' = Inr (Insert r) \<longrightarrow> row_key r \<noteq> ?key"
  proof -
    from no_later have "?key \<notin> row_key ` set ?later"
      using planned_rows_decided [of _ ?um new_lib after] by force
    with key have "last_writes (?row # ?later) = ?row # last_writes ?later" by simp
    with lw have "r = ?row \<or> r \<in> set (last_writes ?later)" by simp
    moreover have "r \<notin> set (last_writes ?later)"
    proof
      assume "r \<in> set (last_writes ?later)"
      with set_last_writes have "r \<in> set ?later" by blast
      with rk have "?key \<in> row_key ` set ?later" by force
      with \<open>?key \<notin> row_key ` set ?later\<close> show False by simp
    qed
    ultimately show ?thesis by simp
  qed
  from d f fixed origin last show ?thesis unfolding Let_def by blast
qed

lemma alice_pass:
  "Username alice_record = Some ''alice''"
  "get_user_map scenario_users ''alice'' = Some ''u-alice''"
  "Path alice_record = Some scenario_path"
  "get_new_presentation_key scenario_lib (translate_path scenario_path)
     = Some ''9f8e7d6c5b4a3210ffeeddccbbaa0011''"
  by (simp_all add: alice_record_def scenario_user_map translate_scenario_path resolve_scenario)

lemma scenario_replacing_run:
  "loader_main never_rejects scenario_users scenario_lib
      ([alice_null_position] @ alice_record # [unknown_media_record]) [earlier_row]
    = \<lparr>user_datas = [alice_row],
       printed = [Connected, Loaded 3, FoundUsers [''alice''],
                  SkippingMediaNotFound (Some ''Ep1'') ''/nowhere/ep9.mkv'',
                  MigrationComplete 2, ConnectionsClosed],
       uncaught = None\<rparr>"
  by (simp add: loader_main_def try_body_def Let_def initial_state_def scenario_found_users
      process_item_def
      print_message_def decide_alice decide_alice_null decide_unknown_media execute_insert_def
      binds_alice_row connect_def visible_def insert_or_replace_def commit_def close_def
      alice_keys)

lemma scenario_commits:
  "commits never_rejects scenario_users scenario_lib
      ([alice_null_position] @ alice_record # [unknown_media_record]) [earlier_row]"
  by (simp add: commits_def try_body_def commit_def initial_state_def scenario_found_users
      process_item_def
      print_message_def decide_alice decide_alice_null decide_unknown_media execute_insert_def
      binds_alice_row connect_def visible_def insert_or_replace_def alice_keys)

theorem written_row_fields_witness:
  "commits never_rejects scenario_users scenario_lib
      ([alice_null_position] @ alice_record # [unknown_media_record]) [earlier_row]
   \<and> Username alice_record = Some ''alice''
   \<and> get_user_map scenario_users ''alice'' = Some ''u-alice''
   \<and> Path alice_record = Some scenario_path
   \<and> get_new_presentation_key scenario_lib (translate_path scenario_path)
       = Some ''9f8e7d6c5b4a3210ffeeddccbbaa0011''
   \<and> decide_item (get_user_map scenario_users) scenario_lib unknown_media_record
       = Inr (SkipMedia (Some ''Ep1'') ''/nowhere/ep9.mkv'')
   \<and> decide_item (get_user_map scenario_users) scenario_lib alice_record
       = Inr (Insert alice_row)
   \<and> filter (\<lambda>x. row_key x = (''9f8e7d6c-5b4a-3210-ffee-ddccbbaa0011'', ''u-alice''))
        (load never_rejects scenario_users scenario_lib
           ([alice_null_position] @ alice_record # [unknown_media_record]) [earlier_row])
       = [\<lparr>Key = ''9f8e7d6c-5b4a-3210-ffee-ddccbbaa0011'', UserId = ''u-alice'',
           Played = 1, PlayCount = 1, IsFavorite = 0,
           ud_PlaybackPositionTicks = Some 500,
           ud_LastPlayedDate = Some ''2024-01-01'',
           AudioStreamIndex = - 1, SubtitleStreamIndex = - 1\<rparr>]
   \<and> load never_rejects scenario_users scenario_lib
        ([alice_null_position] @ alice_record # [unknown_media_record]) [earlier_row]
       = [alice_row]"
proof -
  have n1: "''u-alice'' \<noteq> []" and n2: "''9f8e7d6c5b4a3210ffeeddccbbaa0011'' \<noteq> []"
    by simp_all
  have fields: "PlaybackPositionTicks alice_record = Some 500"
    "LastPlayedDate alice_record = Some ''2024-01-01''"
    by (simp_all add: alice_record_def)
  from written_row_fields [where item = alice_record and u = "''alice''"
      and new_users = scenario_users and uid = "''u-alice''"
      and p = scenario_path and new_lib = scenario_lib
      and k = "''9f8e7d6c5b4a3210ffeeddccbbaa0011''" and env = never_rejects
      and before = "[alice_null_position]" and after = "[unknown_media_record]"
      and tbl = "[earlier_row]",
      OF scenario_commits alice_pass(1) alice_pass(2) n1 alice_pass(3) alice_pass(4) n2]
  have "filter (\<lambda>x. row_key x = (''9f8e7d6c-5b4a-3210-ffee-ddccbbaa0011'', ''u-alice''))
        (load never_rejects scenario_users scenario_lib
           ([alice_null_position] @ alice_record # [unknown_media_record]) [earlier_row])
       = [\<lparr>Key = ''9f8e7d6c-5b4a-3210-ffee-ddccbbaa0011'', UserId = ''u-alice'',
           Played = 1, PlayCount = 1, IsFavorite = 0,
           ud_PlaybackPositionTicks = Some 500,
           ud_LastPlayedDate = Some ''2024-01-01'',
           AudioStreamIndex = - 1, SubtitleStreamIndex = - 1\<rparr>]"
    by (simp add: Let_def format_scenario fields decide_unknown_media)
  moreover have "load never_rejects scenario_users scenario_lib
        ([alice_null_position] @ alice_record # [unknown_media_record]) [earlier_row]
       = [alice_row]"
    by (simp only: load_def scenario_replacing_run run_result.simps)
  ultimately show ?thesis
    using scenario_commits alice_pass decide_unknown_media decide_alice by simp
qed

lemma bob_skipped: "skipped (get_user_map scenario_users) scenario_lib bob_record"
  by (simp add: skipped_def decide_bob)

lemma unknown_media_skipped:
  "skipped (get_user_map scenario_users) scenario_lib unknown_media_record"
  by (simp add: skipped_def decide_unknown_media)

text \<open>
  A record that is skipped leaves the connection and the migrated count as they are. When
  the standard output cannot encode the line of the skip, the loop ends there.
\<close>

lemma skip_line_not_encoded:
  assumes "\<not> encodes env (SkippingUserNotFound (ItemName item) (Username item))"
    and "py_not (case Username item of None \<Rightarrow> None | Some u \<Rightarrow> um u)"
  shows "process_item env um lib st item = Inl (UnicodeEncodeError, st)"
  using assms by (simp add: process_item_def decide_item_def Let_def print_message_def)

lemma process_item_skipped:
  assumes "skipped um lib item" and "process_item env um lib st item = Inr st'"
  shows "new_lib_conn st' = new_lib_conn st \<and> migrated_count st' = migrated_count st"
  using assms
  by (auto simp: skipped_def process_item_def print_message_def
      split: sum.splits decision.splits if_splits)

text \<open>
  C9: each skip is to increment a counter that the run-end summary reports, and a skipped
  record is to leave the destination as it is. In the run below the destination knows
  the user alice and one catalog entry, and the artifact holds a record of the unknown
  user bob and a record whose path resolves to no entry. Both records are skipped and the
  destination table stays as it was. The run prints a line for each skip, but its
  run-end summary is the number of migrated items and the closing line: it carries no
  count of the skipped records, and it is the same summary for a run that skips two
  records and for a run that skips one.
\<close>

theorem skips_not_reported_at_run_end:
  "skipped (get_user_map scenario_users) scenario_lib bob_record
   \<and> skipped (get_user_map scenario_users) scenario_lib unknown_media_record
   \<and> loader_main never_rejects scenario_users scenario_lib
        [bob_record, unknown_media_record] [earlier_row]
       = \<lparr>user_datas = [earlier_row],
          printed = [Connected, Loaded 2, FoundUsers [''alice''],
                     SkippingUserNotFound (Some ''Ep1'') (Some ''bob''),
                     SkippingMediaNotFound (Some ''Ep1'') ''/nowhere/ep9.mkv'',
                     MigrationComplete 0, ConnectionsClosed],
          uncaught = None\<rparr>
   \<and> run_end_summary (loader_main never_rejects scenario_users scenario_lib
        [bob_record, unknown_media_record] [earlier_row])
       = [MigrationComplete 0, ConnectionsClosed]
   \<and> run_end_summary (loader_main never_rejects scenario_users scenario_lib
        [bob_record] [earlier_row])
       = [MigrationComplete 0, ConnectionsClosed]"
  by (simp add: bob_skipped unknown_media_skipped scenario_skipping_run scenario_one_skip_run
      run_end_summary_def)

end
